theory Spec2Isabelle
  imports Main "HOL-Library.Word"
begin

unbundle bit_operations_syntax

section \<open>Machine types\<close>

type_synonym u8 = "8 word"
type_synonym u16 = "16 word"
type_synonym u32 = "32 word"

section \<open>COBS framing (src/common/cobs.c)\<close>

text \<open>
  \<^verbatim>\<open>cobs_encode(in, len, out, out_max)\<close>. The input array is the list \<open>inp\<close>; the read
  index is the position in that list. The output buffer is the list \<open>out\<close> of the bytes
  written so far, so \<open>write_index = length out\<close>. \<open>code_index\<close> and \<open>code\<close> are the
  local variables of the C function. \<open>None\<close> stands for every \<^verbatim>\<open>return 0\<close>; on success
  the C function returns \<open>write_index\<close>, the length of the list, which is at least 1.
  The null-pointer guards of the C function have no counterpart: a list is never null.
\<close>

fun cobs_encode_loop :: "u8 list \<Rightarrow> nat \<Rightarrow> u8 list \<Rightarrow> nat \<Rightarrow> u8 \<Rightarrow> u8 list option" where
  "cobs_encode_loop [] out_max out code_index code = Some (out[code_index := code])"
| "cobs_encode_loop (b # bs) out_max out code_index code =
     (if b = 0 then
        (let out1 = out[code_index := code];
             code_index' = length out1;
             out2 = out1 @ [0]
         in if length out2 > out_max then None
            else cobs_encode_loop bs out_max out2 code_index' 1)
      else if length out \<ge> out_max then None
      else
        (let out1 = out @ [b];
             code' = code + 1
         in if code' = 0xFF then
              (let out2 = out1[code_index := 0xFF];
                   code_index' = length out2;
                   out3 = out2 @ [0]
               in if length out3 > out_max then None
                  else cobs_encode_loop bs out_max out3 code_index' 1)
            else cobs_encode_loop bs out_max out1 code_index code'))"

definition cobs_encode :: "u8 list \<Rightarrow> nat \<Rightarrow> u8 list option" where
  "cobs_encode inp out_max =
     (if out_max = 0 then None else cobs_encode_loop inp out_max [0] 0 1)"

text \<open>
  \<^verbatim>\<open>cobs_decode(in, len, out, out_max)\<close>. The inner \<^verbatim>\<open>for (i = 1; i < code; i++)\<close> loop
  copies \<open>code - 1\<close> bytes and is \<open>cobs_decode_copy\<close>; it returns the unread input and the
  output. \<open>None\<close> stands for the three \<^verbatim>\<open>return 0\<close> error paths (zero code, truncated
  block, output full). On success the C function returns \<open>write_index\<close>, the length of the
  decoded list, which is 0 for an empty result.
\<close>

fun cobs_decode_copy :: "nat \<Rightarrow> u8 list \<Rightarrow> nat \<Rightarrow> u8 list \<Rightarrow> (u8 list \<times> u8 list) option" where
  "cobs_decode_copy 0 inp out_max out = Some (inp, out)"
| "cobs_decode_copy (Suc n) [] out_max out = None"
| "cobs_decode_copy (Suc n) (b # bs) out_max out =
     (if length out \<ge> out_max then None
      else cobs_decode_copy n bs out_max (out @ [b]))"

lemma cobs_decode_copy_length:
  "cobs_decode_copy n inp out_max out = Some (rest, out') \<Longrightarrow> length rest \<le> length inp"
proof (induction n inp out_max out rule: cobs_decode_copy.induct)
  case (3 n b bs out_max out)
  then show ?case by (auto split: if_splits)
qed auto

function cobs_decode_loop :: "u8 list \<Rightarrow> nat \<Rightarrow> u8 list \<Rightarrow> u8 list option" where
  "cobs_decode_loop [] out_max out = Some out"
| "cobs_decode_loop (code # rest) out_max out =
     (if code = 0 then None
      else case cobs_decode_copy (unat code - 1) rest out_max out of
             None \<Rightarrow> None
           | Some (rest', out1) \<Rightarrow>
               if rest' \<noteq> [] \<and> code \<noteq> 0xFF then
                 (if length out1 \<ge> out_max then None
                  else cobs_decode_loop rest' out_max (out1 @ [0]))
               else cobs_decode_loop rest' out_max out1)"
  by pat_completeness auto
termination
  by (relation "measure (\<lambda>(inp, out_max, out). length inp)")
     (auto dest: cobs_decode_copy_length)

definition cobs_decode :: "u8 list \<Rightarrow> nat \<Rightarrow> u8 list option" where
  "cobs_decode inp out_max = cobs_decode_loop inp out_max []"

subsection \<open>Round trip\<close>

lemma cobs_decode_copy_block:
  "length out + length blk \<le> M \<Longrightarrow>
   cobs_decode_copy (length blk) (blk @ rest) M out = Some (rest, out @ blk)"
  by (induction blk arbitrary: out) auto

text \<open>The code byte of an open block that holds \<open>n\<close> bytes so far.\<close>

definition block_code :: "nat \<Rightarrow> u8" where
  "block_code n = of_nat (Suc n)"

lemma block_code_0: "block_code 0 = 1"
  by (simp add: block_code_def)

lemma block_code_Suc: "block_code n + 1 = block_code (Suc n)"
  by (simp add: block_code_def add.commute)

lemma unat_block_code: "n < 254 \<Longrightarrow> unat (block_code n) = Suc n"
  by (simp add: block_code_def unat_of_nat del: of_nat_Suc)

lemma block_code_neq:
  assumes "n < 254"
  shows "block_code n \<noteq> 0" and "block_code n \<noteq> 0xFF"
proof -
  have u: "unat (block_code n) = Suc n"
    using assms by (rule unat_block_code)
  show "block_code n \<noteq> 0"
  proof
    assume "block_code n = 0"
    then have "unat (block_code n) = unat (0 :: u8)" by (rule arg_cong)
    with u show False by simp
  qed
  show "block_code n \<noteq> 0xFF"
  proof
    assume "block_code n = 0xFF"
    then have "unat (block_code n) = unat (0xFF :: u8)" by (rule arg_cong)
    with u assms show False by simp
  qed
qed

lemma cobs_decode_block_last:
  assumes "length blk < 254" and "length out + length blk \<le> M"
  shows "cobs_decode_loop (block_code (length blk) # blk) M out = Some (out @ blk)"
proof -
  have c: "cobs_decode_copy (length blk) blk M out = Some ([], out @ blk)"
    using cobs_decode_copy_block [of out blk M "[]"] assms(2) by simp
  show ?thesis
    using assms(1) c block_code_neq(1) [OF assms(1)]
    by (simp add: unat_block_code)
qed

lemma cobs_decode_block_more:
  assumes "length blk < 254" and "length out + length blk < M" and "rest \<noteq> []"
  shows "cobs_decode_loop (block_code (length blk) # blk @ rest) M out =
         cobs_decode_loop rest M (out @ blk @ [0])"
proof -
  have c: "cobs_decode_copy (length blk) (blk @ rest) M out = Some (rest, out @ blk)"
    using cobs_decode_copy_block [of out blk M rest] assms(2) by simp
  show ?thesis
    using assms c block_code_neq [OF assms(1)]
    by (simp add: unat_block_code)
qed

declare cobs_decode_loop.simps [simp del]

text \<open>
  The state of the encoder loop is \<open>pre @ [x] @ blk\<close>: the finished blocks \<open>pre\<close>, the
  placeholder \<open>x\<close> at \<open>code_index\<close> and the non-zero bytes \<open>blk\<close> of the open block.
\<close>

lemma cobs_encode_loop_decode:
  assumes "length blk + length bs < 254"
      and "length pre + 1 + length blk + length bs \<le> M"
  shows "\<exists>res. cobs_encode_loop bs M (pre @ [x] @ blk) (length pre)
                  (block_code (length blk)) = Some (pre @ res)
           \<and> res \<noteq> []
           \<and> length res = 1 + length blk + length bs
           \<and> (\<forall>acc D. length acc + length blk + length bs \<le> D \<longrightarrow>
                  cobs_decode_loop res D acc = Some (acc @ blk @ bs))"
  using assms
proof (induction bs arbitrary: pre x blk)
  case Nil
  let ?c = "block_code (length blk)"
  have "cobs_encode_loop [] M (pre @ [x] @ blk) (length pre) ?c = Some (pre @ (?c # blk))"
    by (simp add: list_update_append)
  moreover have "\<forall>acc D. length acc + length blk + length ([]::u8 list) \<le> D \<longrightarrow>
        cobs_decode_loop (?c # blk) D acc = Some (acc @ blk @ [])"
    using Nil.prems(1) by (simp add: cobs_decode_block_last)
  ultimately show ?case
    by (intro exI [of _ "?c # blk"]) simp
next
  case (Cons b bs)
  let ?c = "block_code (length blk)"
  show ?case
  proof (cases "b = 0")
    case True
    let ?pre' = "pre @ [?c] @ blk"
    have lb: "length blk < 254" using Cons.prems(1) by simp
    have p1: "length ([]::u8 list) + length bs < 254" using Cons.prems(1) by simp
    have p2: "length ?pre' + 1 + length ([]::u8 list) + length bs \<le> M"
      using Cons.prems(2) by simp
    from Cons.IH [OF p1 p2, of 0] obtain res where
      e: "cobs_encode_loop bs M (?pre' @ [0] @ []) (length ?pre') (block_code (length ([]::u8 list)))
            = Some (?pre' @ res)"
      and ne: "res \<noteq> []"
      and len: "length res = 1 + length ([]::u8 list) + length bs"
      and d: "\<forall>acc D. length acc + length ([]::u8 list) + length bs \<le> D \<longrightarrow>
                cobs_decode_loop res D acc = Some (acc @ [] @ bs)"
      by blast
    have enc: "cobs_encode_loop (b # bs) M (pre @ [x] @ blk) (length pre) ?c
               = Some (pre @ ((?c # blk) @ res))"
      using True e Cons.prems(2)
      by (simp add: list_update_append Let_def block_code_0)
    have dec: "cobs_decode_loop ((?c # blk) @ res) D acc = Some (acc @ blk @ b # bs)"
      if h: "length acc + length blk + length (b # bs) \<le> D" for acc D
    proof -
      have "cobs_decode_loop (?c # blk @ res) D acc = cobs_decode_loop res D (acc @ blk @ [0])"
        using h by (intro cobs_decode_block_more [OF lb _ ne]) simp
      also have "\<dots> = Some ((acc @ blk @ [0]) @ [] @ bs)"
        using d h by simp
      finally show ?thesis using True by simp
    qed
    show ?thesis
      using enc dec len by (intro exI [of _ "(?c # blk) @ res"]) simp
  next
    case False
    let ?blk' = "blk @ [b]"
    have p1: "length ?blk' + length bs < 254" using Cons.prems(1) by simp
    have p2: "length pre + 1 + length ?blk' + length bs \<le> M" using Cons.prems(2) by simp
    from Cons.IH [OF p1 p2, of x] obtain res where
      e: "cobs_encode_loop bs M (pre @ [x] @ ?blk') (length pre) (block_code (length ?blk'))
            = Some (pre @ res)"
      and ne: "res \<noteq> []"
      and len: "length res = 1 + length ?blk' + length bs"
      and d: "\<forall>acc D. length acc + length ?blk' + length bs \<le> D \<longrightarrow>
                cobs_decode_loop res D acc = Some (acc @ ?blk' @ bs)"
      by blast
    have lb: "Suc (length blk) < 254" using Cons.prems(1) by simp
    have nf: "?c + 1 \<noteq> 0xFF"
      using block_code_neq(2) [OF lb] by (simp add: block_code_Suc)
    have enc: "cobs_encode_loop (b # bs) M (pre @ [x] @ blk) (length pre) ?c = Some (pre @ res)"
      using False e nf Cons.prems(2)
      by (simp add: Let_def block_code_Suc)
    show ?thesis
      using enc ne len d by (intro exI [of _ res]) simp
  qed
qed

lemma cobs_roundtrip_general:
  assumes "length inp < 254" and "length inp < out_max" and "length inp \<le> dec_max"
  shows "\<exists>enc. cobs_encode inp out_max = Some enc \<and> length enc = length inp + 1
               \<and> cobs_decode enc dec_max = Some inp"
proof -
  have p1: "length ([]::u8 list) + length inp < 254" using assms(1) by simp
  have p2: "length ([]::u8 list) + 1 + length ([]::u8 list) + length inp \<le> out_max"
    using assms(2) by simp
  from cobs_encode_loop_decode [OF p1 p2, of 0] obtain res where
    e: "cobs_encode_loop inp out_max [0] 0 1 = Some res"
    and len: "length res = 1 + length inp"
    and d: "\<forall>acc D. length acc + length ([]::u8 list) + length inp \<le> D \<longrightarrow>
              cobs_decode_loop res D acc = Some (acc @ [] @ inp)"
    by (auto simp: block_code_0)
  have "cobs_decode_loop res dec_max [] = Some inp"
    using d assms(3) by simp
  then show ?thesis
    using e len assms(2) by (simp add: cobs_encode_def cobs_decode_def)
qed

text \<open>
  Claim C7. For every input of 0 to 111 bytes, and buffers that are large enough
  (\<open>out_max\<close> above the input length for the encoder, \<open>dec_max\<close> at least the input
  length for the decoder), \<open>cobs_encode\<close> succeeds and \<open>cobs_decode\<close> of its output
  returns exactly the input.
\<close>

theorem cobs_encode_decode_roundtrip:
  assumes "length inp \<le> 111" and "length inp < out_max" and "length inp \<le> dec_max"
  shows "\<exists>enc. cobs_encode inp out_max = Some enc \<and> cobs_decode enc dec_max = Some inp"
proof -
  have "length inp < 254" using assms(1) by simp
  from cobs_roundtrip_general [OF this assms(2) assms(3)] show ?thesis by blast
qed

theorem cobs_encode_decode_roundtrip_witness:
  "length [0x00, 0x01, 0x00, 0x00 :: u8] \<le> 111 \<and> length [0x00, 0x01, 0x00, 0x00 :: u8] < 61
   \<and> length [0x00, 0x01, 0x00, 0x00 :: u8] \<le> 64
   \<and> cobs_encode [0x00, 0x01, 0x00, 0x00] 61 = Some [0x01, 0x02, 0x01, 0x01, 0x01]
   \<and> cobs_decode [0x01, 0x02, 0x01, 0x01, 0x01] 64 = Some [0x00, 0x01, 0x00, 0x00]"
proof -
  have e: "cobs_encode [0x00, 0x01, 0x00, 0x00] 61 = Some [0x01, 0x02, 0x01, 0x01, 0x01]"
    by (simp add: cobs_encode_def)
  from cobs_encode_decode_roundtrip [of "[0x00, 0x01, 0x00, 0x00]" 61 64]
  have "cobs_decode [0x01, 0x02, 0x01, 0x01, 0x01] 64 = Some [0x00, 0x01, 0x00, 0x00]"
    unfolding e by simp
  with e show ?thesis by simp
qed

section \<open>Asynchronous frame render (src/slave/ssd1306_driver.c)\<close>

text \<open>
  \<^verbatim>\<open>g_async\<close> with the page count \<^verbatim>\<open>g_pages\<close>. The render callback pointer \<^verbatim>\<open>cb\<close> and
  the bytes sent to the panel are left out: they do not influence the control state. The
  calls of \<^verbatim>\<open>debug_log_event(type, value)\<close> are recorded in \<open>a_log\<close>, oldest first; a frame
  start is the event \<open>DEBUG_LED_EVT_RENDER_START\<close>, logged by \<^verbatim>\<open>ssd1306_render_async_begin\<close>
  and by the restart in \<^verbatim>\<open>ssd1306_render_async_process\<close>.
\<close>

abbreviation (input) DEBUG_LED_EVT_RENDER_START :: u8 where "DEBUG_LED_EVT_RENDER_START \<equiv> 7"
abbreviation (input) DEBUG_LED_EVT_RENDER_STAGE :: u8 where "DEBUG_LED_EVT_RENDER_STAGE \<equiv> 8"
abbreviation (input) DEBUG_LED_EVT_RENDER_DONE :: u8 where "DEBUG_LED_EVT_RENDER_DONE \<equiv> 9"

abbreviation (input) SSD1306_ASYNC_STAGE_ADDR :: u8 where "SSD1306_ASYNC_STAGE_ADDR \<equiv> 0"
abbreviation (input) SSD1306_ASYNC_STAGE_BUILD :: u8 where "SSD1306_ASYNC_STAGE_BUILD \<equiv> 1"
abbreviation (input) SSD1306_ASYNC_STAGE_STREAM_START :: u8 where "SSD1306_ASYNC_STAGE_STREAM_START \<equiv> 2"
abbreviation (input) SSD1306_ASYNC_STAGE_STREAMING :: u8 where "SSD1306_ASYNC_STAGE_STREAMING \<equiv> 3"

abbreviation (input) RES_OK :: int where "RES_OK \<equiv> 0"
abbreviation (input) RES_BAD_LEN :: int where "RES_BAD_LEN \<equiv> -1"
abbreviation (input) RES_BAD_STATE :: int where "RES_BAD_STATE \<equiv> -2"
abbreviation (input) RES_UNKNOWN_ID :: int where "RES_UNKNOWN_ID \<equiv> -3"
abbreviation (input) RES_RANGE :: int where "RES_RANGE \<equiv> -4"
abbreviation (input) RES_INTERNAL :: int where "RES_INTERNAL \<equiv> -5"
abbreviation (input) RES_NO_SPACE :: int where "RES_NO_SPACE \<equiv> -6"
abbreviation (input) RES_PARSE_FAIL :: int where "RES_PARSE_FAIL \<equiv> -10"

record ssd1306_async_state_t =
  a_active :: u8
  a_page :: u8
  a_stage :: u8
  a_rerender_pending :: u8
  g_pages :: u8
  a_log :: "(u8 \<times> u8) list"

text \<open>
  What one call of \<^verbatim>\<open>ssd1306_render_async_process\<close> reads from the I2C DMA layer:
  the value of \<^verbatim>\<open>i2c_tx_dma_busy()\<close> at the stage's check, and \<^verbatim>\<open>g_xfer.active\<close> after
  \<^verbatim>\<open>ssd1306_dma_xfer_process()\<close> has run.
\<close>

record async_env =
  i2c_tx_dma_busy :: bool
  xfer_active :: bool

definition debug_log_event :: "u8 \<Rightarrow> u8 \<Rightarrow> ssd1306_async_state_t \<Rightarrow> ssd1306_async_state_t" where
  "debug_log_event ty v st = st\<lparr>a_log := a_log st @ [(ty, v)]\<rparr>"

definition render_start_value :: "ssd1306_async_state_t \<Rightarrow> u8" where
  "render_start_value st = (if g_pages st > 0 then g_pages st - 1 else 0)"

definition ssd1306_render_async_busy :: "ssd1306_async_state_t \<Rightarrow> bool" where
  "ssd1306_render_async_busy st = (a_active st \<noteq> 0)"

definition ssd1306_render_async_request_rerender ::
    "ssd1306_async_state_t \<Rightarrow> ssd1306_async_state_t" where
  "ssd1306_render_async_request_rerender st =
     (if a_active st \<noteq> 0 then st\<lparr>a_rerender_pending := 1\<rparr> else st)"

definition ssd1306_render_async_begin ::
    "ssd1306_async_state_t \<Rightarrow> int \<times> ssd1306_async_state_t" where
  "ssd1306_render_async_begin st =
     (if a_active st \<noteq> 0 then (RES_BAD_STATE, st)
      else (RES_OK,
            debug_log_event DEBUG_LED_EVT_RENDER_START (render_start_value st)
              (st\<lparr>a_active := 1, a_page := 0, a_stage := SSD1306_ASYNC_STAGE_ADDR,
                  a_rerender_pending := 0\<rparr>)))"

definition ssd1306_render_async_start_or_request ::
    "ssd1306_async_state_t \<Rightarrow> int \<times> ssd1306_async_state_t" where
  "ssd1306_render_async_start_or_request st =
     (if \<not> ssd1306_render_async_busy st then ssd1306_render_async_begin st
      else (1, ssd1306_render_async_request_rerender st))"

definition async_page_done :: "ssd1306_async_state_t \<Rightarrow> ssd1306_async_state_t" where
  "async_page_done st =
     (let st1 = st\<lparr>a_page := a_page st + 1\<rparr>
      in if a_page st1 \<ge> g_pages st1 then
           (let st2 = debug_log_event DEBUG_LED_EVT_RENDER_DONE
                        (if a_rerender_pending st1 \<noteq> 0 then 1 else 0) st1;
                st3 = st2\<lparr>a_active := 0\<rparr>
            in if a_rerender_pending st3 \<noteq> 0 then
                 debug_log_event DEBUG_LED_EVT_RENDER_START (render_start_value st3)
                   (st3\<lparr>a_rerender_pending := 0, a_active := 1, a_page := 0,
                        a_stage := SSD1306_ASYNC_STAGE_ADDR\<rparr>)
               else st3)
         else st1\<lparr>a_stage := SSD1306_ASYNC_STAGE_ADDR\<rparr>)"

definition ssd1306_render_async_process ::
    "async_env \<Rightarrow> ssd1306_async_state_t \<Rightarrow> ssd1306_async_state_t" where
  "ssd1306_render_async_process env st =
     (if a_active st = 0 then st
      else if a_stage st = SSD1306_ASYNC_STAGE_ADDR then
        (if i2c_tx_dma_busy env then st
         else (debug_log_event DEBUG_LED_EVT_RENDER_STAGE (a_page st AND 0x07) st)
                \<lparr>a_stage := SSD1306_ASYNC_STAGE_BUILD\<rparr>)
      else if a_stage st = SSD1306_ASYNC_STAGE_BUILD then
        (if i2c_tx_dma_busy env then st
         else st\<lparr>a_stage := SSD1306_ASYNC_STAGE_STREAM_START\<rparr>)
      else if a_stage st = SSD1306_ASYNC_STAGE_STREAM_START then
        (if i2c_tx_dma_busy env then st
         else st\<lparr>a_stage := SSD1306_ASYNC_STAGE_STREAMING\<rparr>)
      else if a_stage st = SSD1306_ASYNC_STAGE_STREAMING then
        (if xfer_active env then st else async_page_done st)
      else st\<lparr>a_active := 0\<rparr>)"

text \<open>Main-loop ticks with no new request: one call of the process function per tick.\<close>

fun async_run :: "async_env list \<Rightarrow> ssd1306_async_state_t \<Rightarrow> ssd1306_async_state_t" where
  "async_run [] st = st"
| "async_run (env # envs) st = async_run envs (ssd1306_render_async_process env st)"

definition frames_started :: "ssd1306_async_state_t \<Rightarrow> nat" where
  "frames_started st = length (filter (\<lambda>e. fst e = DEBUG_LED_EVT_RENDER_START) (a_log st))"

definition pending_frames :: "ssd1306_async_state_t \<Rightarrow> nat" where
  "pending_frames st = (if a_rerender_pending st \<noteq> 0 then 1 else 0)"

lemma request_rerender_idem:
  "ssd1306_render_async_request_rerender (ssd1306_render_async_request_rerender st)
     = ssd1306_render_async_request_rerender st"
  by (simp add: ssd1306_render_async_request_rerender_def)

lemma request_rerender_funpow:
  "(ssd1306_render_async_request_rerender ^^ Suc n) st
     = ssd1306_render_async_request_rerender st"
  by (induction n) (simp_all add: request_rerender_idem)

lemma async_page_done_potential:
  "frames_started (async_page_done st) + pending_frames (async_page_done st)
     \<le> frames_started st + pending_frames st"
  by (simp add: async_page_done_def frames_started_def pending_frames_def
        debug_log_event_def Let_def)

lemma async_process_potential:
  "frames_started (ssd1306_render_async_process env st)
     + pending_frames (ssd1306_render_async_process env st)
     \<le> frames_started st + pending_frames st"
proof -
  have "frames_started (st\<lparr>a_stage := x\<rparr>) = frames_started st"
       "pending_frames (st\<lparr>a_stage := x\<rparr>) = pending_frames st"
       "frames_started (st\<lparr>a_active := y\<rparr>) = frames_started st"
       "pending_frames (st\<lparr>a_active := y\<rparr>) = pending_frames st" for x y
    by (simp_all add: frames_started_def pending_frames_def)
  moreover have
    "frames_started ((debug_log_event DEBUG_LED_EVT_RENDER_STAGE v st)\<lparr>a_stage := x\<rparr>)
       = frames_started st"
    "pending_frames ((debug_log_event DEBUG_LED_EVT_RENDER_STAGE v st)\<lparr>a_stage := x\<rparr>)
       = pending_frames st" for v x
    by (simp_all add: frames_started_def pending_frames_def debug_log_event_def)
  ultimately show ?thesis
    using async_page_done_potential [of st]
    by (simp add: ssd1306_render_async_process_def)
qed

lemma async_run_potential:
  "frames_started (async_run envs st) + pending_frames (async_run envs st)
     \<le> frames_started st + pending_frames st"
proof (induction envs arbitrary: st)
  case Nil
  show ?case by simp
next
  case (Cons env envs)
  have "frames_started (async_run (env # envs) st) + pending_frames (async_run (env # envs) st)
        \<le> frames_started (ssd1306_render_async_process env st)
          + pending_frames (ssd1306_render_async_process env st)"
    using Cons.IH [of "ssd1306_render_async_process env st"] by simp
  also have "\<dots> \<le> frames_started st + pending_frames st"
    by (rule async_process_potential)
  finally show ?case .
qed

lemma pending_frames_le_1: "pending_frames st \<le> 1"
  by (simp add: pending_frames_def)

lemma frames_started_request:
  "frames_started (ssd1306_render_async_request_rerender st) = frames_started st"
  by (simp add: ssd1306_render_async_request_rerender_def frames_started_def)

text \<open>
  Claim C9. While a frame is active, any positive number \<open>Suc n\<close> of rerender requests
  leaves the same state as one request, with the pending flag set. After the requests,
  over any number of main-loop ticks without a new request, at most one more frame is
  started. The bound for ticks without a request holds from every state \<open>st'\<close>: the
  frames started grow by at most one, and by none when no rerender is pending, so a
  restarted frame (whose restart cleared the flag) is never followed by another one.
\<close>

theorem rerender_requests_coalesce:
  assumes "a_active st \<noteq> 0"
  shows "(ssd1306_render_async_request_rerender ^^ Suc n) st
           = ssd1306_render_async_request_rerender st
       \<and> a_rerender_pending ((ssd1306_render_async_request_rerender ^^ Suc n) st) = 1
       \<and> frames_started
            (async_run envs ((ssd1306_render_async_request_rerender ^^ Suc n) st))
           \<le> frames_started st + 1
       \<and> frames_started (async_run envs st') \<le> frames_started st' + pending_frames st'
       \<and> pending_frames st' \<le> 1"
proof -
  let ?r = "ssd1306_render_async_request_rerender st"
  have c: "(ssd1306_render_async_request_rerender ^^ Suc n) st = ?r"
    by (rule request_rerender_funpow)
  have p: "a_rerender_pending ?r = 1"
    using assms by (simp add: ssd1306_render_async_request_rerender_def)
  have b: "frames_started (async_run envs s) \<le> frames_started s + pending_frames s" for s
    using async_run_potential [of envs s] by simp
  have "frames_started (async_run envs ?r) \<le> frames_started ?r + pending_frames ?r"
    by (rule b)
  also have "\<dots> \<le> frames_started st + 1"
    using pending_frames_le_1 [of ?r] by (simp add: frames_started_request)
  finally have f: "frames_started (async_run envs ?r) \<le> frames_started st + 1" .
  show ?thesis
    unfolding c using p f b [of st'] pending_frames_le_1 [of st'] by simp
qed

text \<open>
  A frame of four pages on its last page, three requests, and seventeen idle ticks: the
  running frame completes, one extra frame runs to its end, and the engine is idle.
\<close>

definition async_example :: ssd1306_async_state_t where
  "async_example = \<lparr>a_active = 1, a_page = 3, a_stage = SSD1306_ASYNC_STAGE_STREAMING,
     a_rerender_pending = 0, g_pages = 4, a_log = [(DEBUG_LED_EVT_RENDER_START, 3)]\<rparr>"

definition env_idle :: async_env where
  "env_idle = \<lparr>i2c_tx_dma_busy = False, xfer_active = False\<rparr>"

lemma async_example_run:
  "frames_started (async_run (replicate 17 env_idle)
      (ssd1306_render_async_request_rerender async_example)) = 2
   \<and> a_active (async_run (replicate 17 env_idle)
      (ssd1306_render_async_request_rerender async_example)) = 0"
  by code_simp

theorem rerender_requests_coalesce_witness:
  "a_active async_example \<noteq> 0
   \<and> (ssd1306_render_async_request_rerender ^^ Suc 2) async_example
       = ssd1306_render_async_request_rerender async_example
   \<and> frames_started (async_run (replicate 17 env_idle)
        ((ssd1306_render_async_request_rerender ^^ Suc 2) async_example)) = 2
   \<and> frames_started async_example + 1 = 2"
proof -
  have a: "a_active async_example \<noteq> 0"
    by (simp add: async_example_def)
  have f: "frames_started async_example + 1 = 2"
    by (simp add: async_example_def frames_started_def)
  from rerender_requests_coalesce [OF a, of 2 "replicate 17 env_idle" async_example]
  have c: "(ssd1306_render_async_request_rerender ^^ Suc 2) async_example
             = ssd1306_render_async_request_rerender async_example"
    by blast
  show ?thesis
    using a f async_example_run unfolding c by simp
qed

section \<open>UI model (include/slave/ui_runtime.h, include/slave/ui_protocol.h)\<close>

abbreviation (input) INVALID_ELEMENT_ID :: u8 where "INVALID_ELEMENT_ID \<equiv> 0xFF"
abbreviation (input) UR_INVALID_ELEMENT_ID :: u8 where "UR_INVALID_ELEMENT_ID \<equiv> 0xFF"

abbreviation (input) ELEMENT_TEXT :: u8 where "ELEMENT_TEXT \<equiv> 0"
abbreviation (input) ELEMENT_NUMBER_EDIT :: u8 where "ELEMENT_NUMBER_EDIT \<equiv> 8"
abbreviation (input) ELEMENT_LIST_VIEW :: u8 where "ELEMENT_LIST_VIEW \<equiv> 9"
abbreviation (input) ELEMENT_SCREEN :: u8 where "ELEMENT_SCREEN \<equiv> 10"
abbreviation (input) ELEMENT_BARREL :: u8 where "ELEMENT_BARREL \<equiv> 12"
abbreviation (input) ELEMENT_TRIGGER :: u8 where "ELEMENT_TRIGGER \<equiv> 14"

abbreviation (input) OVERLAY_NONE :: u8 where "OVERLAY_NONE \<equiv> 0"
abbreviation (input) OVERLAY_FULL :: u8 where "OVERLAY_FULL \<equiv> 1"

abbreviation (input) NAV_CTX_LIST :: u8 where "NAV_CTX_LIST \<equiv> 0"
abbreviation (input) NAV_CTX_LOCAL_SCREEN :: u8 where "NAV_CTX_LOCAL_SCREEN \<equiv> 1"
abbreviation (input) NAV_STACK_MAX_DEPTH :: u8 where "NAV_STACK_MAX_DEPTH \<equiv> 4"

abbreviation (input) UI_ATTR_ARENA_CAP :: nat where "UI_ATTR_ARENA_CAP \<equiv> 768"
abbreviation (input) UI_ATTR_TAG_TEXT :: u8 where "UI_ATTR_TAG_TEXT \<equiv> 0x10"
abbreviation (input) UI_ATTR_TAG_SCREEN_ROLE :: u8 where "UI_ATTR_TAG_SCREEN_ROLE \<equiv> 0x11"

text \<open>
  \<^verbatim>\<open>sizeof\<close> of the node structs on the 32-bit target: a \<^verbatim>\<open>uint16_t next_off\<close> followed by
  the state struct (10, 4 and 2 bytes), and of the packed \<^verbatim>\<open>element_t\<close>.
\<close>

abbreviation (input) SIZEOF_ur_list_node_t :: u16 where "SIZEOF_ur_list_node_t \<equiv> 12"
abbreviation (input) SIZEOF_ur_barrel_node_t :: u16 where "SIZEOF_ur_barrel_node_t \<equiv> 6"
abbreviation (input) SIZEOF_ur_trigger_node_t :: u16 where "SIZEOF_ur_trigger_node_t \<equiv> 4"
abbreviation (input) SIZEOF_element_t :: u16 where "SIZEOF_element_t \<equiv> 2"

record element_t =
  parent_id :: u8
  el_type :: u8

text \<open>
  One attribute entry of the arena head: the tag byte, the owning element id and the
  bytes after this two-byte header (for a text entry the length byte and the payload, for
  a screen-role entry the role byte).
\<close>

record attr_entry =
  a_tag :: u8
  a_element_id :: u8
  a_body :: "u8 list"

record ur_trigger_state_t =
  t_element_id :: u8
  t_version :: u8

record ur_list_state_t =
  l_element_id :: u8
  l_cursor :: u8
  l_top_index :: u8
  l_visible_rows :: u8
  l_anim_active :: u8
  l_anim_dir :: "8 word"
  l_anim_pix :: u8
  l_pending_top :: u8
  l_pending_cursor :: u8
  l_last_text_child :: u8

record ur_barrel_state_t =
  b_element_id :: u8
  b_aux :: u8
  b_value :: "16 word"

text \<open>
  \<^verbatim>\<open>ui_runtime_t\<close>. The byte array \<^verbatim>\<open>arena\<close> is represented by what the code stores in it:
  the attribute entries of the head in append order (\<open>attrs\<close>) and the three linked
  lists of the tail, each as the list of its nodes from the list head on
  (\<open>triggers\<close>, \<open>lists\<close>, \<open>barrels\<close>; a head offset of 0 is the empty list). The counters
  \<open>head_used\<close>, \<open>used_tail\<close> and \<open>attr_base\<close> are the fields of the struct. A signed
  field (\<^verbatim>\<open>int8_t anim_dir\<close>, \<^verbatim>\<open>int16_t value\<close>) is a word read with \<open>sint\<close>.
\<close>

record ui_runtime_t =
  head_used :: u16
  used_tail :: u16
  attr_base :: u16
  attrs :: "attr_entry list"
  triggers :: "ur_trigger_state_t list"
  lists :: "ur_list_state_t list"
  barrels :: "ur_barrel_state_t list"

record nav_stack_entry_t =
  n_type :: u8
  n_target_element :: u8
  n_return_list :: u8
  n_saved_cursor :: u8
  n_saved_top :: u8
  n_saved_focus :: u8
  n_saved_active_screen :: u8

record screen_anim_state_t =
  sa_active :: u8
  sa_from_screen :: u8
  sa_to_screen :: u8
  sa_offset_px :: "16 word"
  sa_dir :: "8 word"

record overlay_runtime_t =
  active_overlay_screen_id :: u8
  remaining_ms :: u16
  mask_input :: u8
  prev_focus :: u8

text \<open>
  \<^verbatim>\<open>protocol_state_t\<close> (the global \<^verbatim>\<open>g_protocol_state\<close>). The tables \<^verbatim>\<open>elements\<close>, \<^verbatim>\<open>pos_x\<close> and
  \<^verbatim>\<open>pos_y\<close> point into the arena head; they are lists with one slot per reserved
  element, and the null pointer of an unreserved table is the empty list. \<open>nav_stack\<close>
  has \<open>NAV_STACK_MAX_DEPTH\<close> entries.
\<close>

record protocol_state_t =
  active_screen :: u8
  screen_count :: u8
  element_count :: u8
  element_capacity :: u8
  elements :: "element_t list"
  pos_x :: "u8 list"
  pos_y :: "u8 list"
  scroll_x :: "16 word"
  initialized :: u8
  status_dirty :: u8
  status_dirty_id :: u8
  trigger_count :: u8
  runtime :: ui_runtime_t
  overlay :: overlay_runtime_t
  protocol_version :: u8
  capabilities :: u32
  focused_element :: u8
  input_source :: u8
  nav_stack :: "nav_stack_entry_t list"
  active_local_screen :: u8
  nav_depth :: u8
  screen_anim :: screen_anim_state_t
  edit_blink_active :: u8
  edit_blink_phase :: u8
  edit_blink_counter :: u8
  header_seen :: u8

subsection \<open>Reset (ui_protocol.c, ui_runtime.c)\<close>

definition ur_init :: ui_runtime_t where
  "ur_init = \<lparr>head_used = 0, used_tail = 0, attr_base = 0, attrs = [],
     triggers = [], lists = [], barrels = []\<rparr>"

definition nav_stack_entry_reset :: nav_stack_entry_t where
  "nav_stack_entry_reset = \<lparr>n_type = NAV_CTX_LIST, n_target_element = INVALID_ELEMENT_ID,
     n_return_list = INVALID_ELEMENT_ID, n_saved_cursor = 0, n_saved_top = 0,
     n_saved_focus = INVALID_ELEMENT_ID, n_saved_active_screen = 0\<rparr>"

definition protocol_reset_state :: protocol_state_t where
  "protocol_reset_state = \<lparr>active_screen = 0, screen_count = 0, element_count = 0,
     element_capacity = 0, elements = [], pos_x = [], pos_y = [], scroll_x = 0,
     initialized = 0, status_dirty = 0, status_dirty_id = INVALID_ELEMENT_ID,
     trigger_count = 0, runtime = ur_init,
     overlay = \<lparr>active_overlay_screen_id = INVALID_ELEMENT_ID, remaining_ms = 0,
                 mask_input = 0, prev_focus = INVALID_ELEMENT_ID\<rparr>,
     protocol_version = 1, capabilities = 0, focused_element = INVALID_ELEMENT_ID,
     input_source = 0,
     nav_stack = replicate (unat NAV_STACK_MAX_DEPTH) nav_stack_entry_reset,
     active_local_screen = INVALID_ELEMENT_ID, nav_depth = 0,
     screen_anim = \<lparr>sa_active = 0, sa_from_screen = 0, sa_to_screen = 0,
                     sa_offset_px = 0, sa_dir = 0\<rparr>,
     edit_blink_active = 0, edit_blink_phase = 0, edit_blink_counter = 0,
     header_seen = 0\<rparr>"

definition protocol_init :: protocol_state_t where
  "protocol_init = protocol_reset_state\<lparr>protocol_version := 1, capabilities := 0\<rparr>"

subsection \<open>Arena operations (ui_runtime.c, ui_protocol.c)\<close>

text \<open>
  \<^verbatim>\<open>ur__alloc_tail(rt, size)\<close>: \<open>None\<close> is the null pointer; otherwise the offset
  \<open>new_off\<close> of the new node in the arena and the updated runtime.
\<close>

definition ur__alloc_tail :: "ui_runtime_t \<Rightarrow> u16 \<Rightarrow> (u16 \<times> ui_runtime_t) option" where
  "ur__alloc_tail rt sz =
     (if unat (head_used rt) + unat (used_tail rt) + unat sz > UI_ATTR_ARENA_CAP then None
      else Some (768 - used_tail rt - sz, rt\<lparr>used_tail := used_tail rt + sz\<rparr>))"

text \<open>
  \<^verbatim>\<open>ui_attr_append\<close>. \<open>need\<close> is computed in \<^verbatim>\<open>uint16_t\<close>. The payload pointer is an
  option; with a null payload the entry keeps the bytes the arena holds there, which are
  the zeros written by the reset.
\<close>

definition attr_need :: "u8 \<Rightarrow> u16 \<Rightarrow> u16" where
  "attr_need len_prefix payload_len = 2 + payload_len + (if len_prefix \<noteq> 0 then 1 else 0)"

definition ui_attr_append ::
    "protocol_state_t \<Rightarrow> u8 \<Rightarrow> u8 \<Rightarrow> u8 list option \<Rightarrow> u8 \<Rightarrow> u16 \<Rightarrow> int \<times> protocol_state_t" where
  "ui_attr_append st element_id tag payload len_prefix payload_len =
     (if initialized st \<noteq> 0 then (RES_BAD_STATE, st)
      else if element_id \<ge> element_capacity st then (RES_RANGE, st)
      else
        (let rt = runtime st;
             need = attr_need len_prefix payload_len
         in if unat (head_used rt) + unat need + unat (used_tail rt) > UI_ATTR_ARENA_CAP
            then (RES_NO_SPACE, st)
            else
              (let body = (if len_prefix \<noteq> 0 then [ucast payload_len] else [])
                          @ (case payload of
                               Some bs \<Rightarrow> take (unat payload_len) bs
                             | None \<Rightarrow> replicate (unat payload_len) 0);
                   e = \<lparr>a_tag = tag, a_element_id = element_id, a_body = body\<rparr>
               in (RES_OK, st\<lparr>runtime := rt\<lparr>attrs := attrs rt @ [e],
                                                head_used := head_used rt + need\<rparr>\<rparr>))))"

definition protocol_reserve_element_storage ::
    "protocol_state_t \<Rightarrow> u8 \<Rightarrow> int \<times> protocol_state_t" where
  "protocol_reserve_element_storage st capacity =
     (if capacity = 0 then (RES_RANGE, st)
      else if element_capacity st \<noteq> 0 then (RES_BAD_STATE, st)
      else
        (let need = (ucast capacity :: u16) * (SIZEOF_element_t + 2)
         in if unat need > UI_ATTR_ARENA_CAP then (RES_NO_SPACE, st)
            else
              (let off = (ucast capacity :: u16) * SIZEOF_element_t
                           + ucast capacity + ucast capacity;
                   n = unat capacity
               in (RES_OK,
                   st\<lparr>elements := replicate n \<lparr>parent_id = 0xFF, el_type = 0xFF\<rparr>,
                      pos_x := replicate n 0, pos_y := replicate n 0,
                      element_capacity := capacity,
                      runtime := (runtime st)\<lparr>attr_base := off, head_used := off\<rparr>\<rparr>))))"

subsection \<open>Sequences of arena operations\<close>

datatype arena_op =
    Reserve_Storage u8
  | Attr_Append u8 u8 "u8 list option" u8 u16
  | Alloc_Tail u16

fun arena_step :: "protocol_state_t \<Rightarrow> arena_op \<Rightarrow> protocol_state_t" where
  "arena_step st (Reserve_Storage n) = snd (protocol_reserve_element_storage st n)"
| "arena_step st (Attr_Append eid tag payload len_prefix payload_len) =
     snd (ui_attr_append st eid tag payload len_prefix payload_len)"
| "arena_step st (Alloc_Tail sz) =
     (case ur__alloc_tail (runtime st) sz of
        None \<Rightarrow> st
      | Some (new_off, rt) \<Rightarrow> st\<lparr>runtime := rt\<rparr>)"

fun arena_run :: "protocol_state_t \<Rightarrow> arena_op list \<Rightarrow> protocol_state_t" where
  "arena_run st [] = st"
| "arena_run st (op # ops) = arena_run (arena_step st op) ops"

definition arena_used :: "protocol_state_t \<Rightarrow> nat" where
  "arena_used st = unat (head_used (runtime st)) + unat (used_tail (runtime st))"

text \<open>
  The order the protocol keeps: a tail node is allocated only once the element storage
  is reserved (the header descriptor comes first).
\<close>

fun tail_after_reserve :: "protocol_state_t \<Rightarrow> arena_op list \<Rightarrow> bool" where
  "tail_after_reserve st [] = True"
| "tail_after_reserve st (op # ops) =
     ((case op of Alloc_Tail sz \<Rightarrow> element_capacity st \<noteq> 0 | _ \<Rightarrow> True)
      \<and> tail_after_reserve (arena_step st op) ops)"

definition arena_inv :: "protocol_state_t \<Rightarrow> bool" where
  "arena_inv st = (arena_used st \<le> UI_ATTR_ARENA_CAP
                   \<and> (element_capacity st = 0 \<longrightarrow> used_tail (runtime st) = 0))"

subsection \<open>The arena bound\<close>

lemma unat_u8_bound: "unat (c::u8) < 256"
  using unsigned_less [of c, where 'a=nat] by simp

lemma unat_ucast_u8: "unat (ucast (c::u8) :: u16) = unat c"
proof -
  have "unat c < 2 ^ 16" using unat_u8_bound [of c] by simp
  then show ?thesis by (simp add: unsigned_ucast_eq take_bit_nat_eq_self)
qed

lemma reserve_need: "unat (4 * (ucast (c::u8) :: u16)) = 4 * unat c"
proof -
  have "unat (4 :: u16) * unat (ucast c :: u16) < 2 ^ LENGTH(16)"
    using unat_u8_bound [of c] by (simp add: unat_ucast_u8)
  then have "unat (4 * (ucast c :: u16)) = unat (4 :: u16) * unat (ucast c :: u16)"
    by (simp only: unat_mult_lem)
  then show ?thesis by (simp add: unat_ucast_u8)
qed

lemma reserve_need': "unat ((ucast (c::u8) :: u16) * 4) = 4 * unat c"
  by (subst mult.commute) (rule reserve_need)

lemma reserve_off: "(ucast (c::u8) :: u16) * 2 + ucast c + ucast c = 4 * ucast c"
  by simp

lemma unat_add_u16: "unat (a::u16) + unat b \<le> 768 \<Longrightarrow> unat (a + b) = unat a + unat b"
proof -
  assume "unat a + unat b \<le> 768"
  then have "unat a + unat b < 2 ^ LENGTH(16)" by simp
  then show ?thesis by (simp only: unat_add_lem)
qed

lemma alloc_tail_inv:
  assumes "arena_used st \<le> UI_ATTR_ARENA_CAP"
  shows "arena_used (arena_step st (Alloc_Tail sz)) \<le> UI_ATTR_ARENA_CAP"
proof (cases "unat (head_used (runtime st)) + unat (used_tail (runtime st)) + unat sz > UI_ATTR_ARENA_CAP")
  case True
  then show ?thesis using assms by (simp add: ur__alloc_tail_def)
next
  case False
  then have "unat (used_tail (runtime st) + sz) = unat (used_tail (runtime st)) + unat sz"
    by (intro unat_add_u16) simp
  then show ?thesis using False by (simp add: ur__alloc_tail_def arena_used_def)
qed

lemma attr_append_inv:
  assumes "arena_used st \<le> UI_ATTR_ARENA_CAP"
  shows "arena_used (snd (ui_attr_append st eid tag payload lp plen)) \<le> UI_ATTR_ARENA_CAP"
proof (cases "unat (head_used (runtime st)) + unat (attr_need lp plen) + unat (used_tail (runtime st)) > UI_ATTR_ARENA_CAP")
  case True
  then show ?thesis using assms by (simp add: ui_attr_append_def Let_def)
next
  case False
  then have "unat (head_used (runtime st) + attr_need lp plen)
               = unat (head_used (runtime st)) + unat (attr_need lp plen)"
    by (intro unat_add_u16) simp
  then show ?thesis using False assms by (simp add: ui_attr_append_def arena_used_def Let_def)
qed

lemma reserve_inv:
  assumes "arena_inv st"
  shows "arena_used (snd (protocol_reserve_element_storage st n)) \<le> UI_ATTR_ARENA_CAP"
  using assms
  by (auto simp: protocol_reserve_element_storage_def arena_inv_def arena_used_def Let_def
        reserve_need reserve_need' reserve_off simp del: mult_2_right)

lemma step_capacity:
  "element_capacity st \<noteq> 0 \<Longrightarrow> element_capacity (arena_step st op) \<noteq> 0"
  by (cases op)
     (auto simp: protocol_reserve_element_storage_def ui_attr_append_def ur__alloc_tail_def
        Let_def split: option.splits)

lemma step_inv:
  assumes "arena_inv st" and "case op of Alloc_Tail sz \<Rightarrow> element_capacity st \<noteq> 0 | _ \<Rightarrow> True"
  shows "arena_inv (arena_step st op)"
proof (cases op)
  case (Reserve_Storage n)
  have "arena_used (arena_step st op) \<le> UI_ATTR_ARENA_CAP"
    using reserve_inv [OF assms(1), of n] Reserve_Storage by simp
  moreover have "element_capacity (arena_step st op) = 0 \<longrightarrow> used_tail (runtime (arena_step st op)) = 0"
    using assms(1) Reserve_Storage
    by (auto simp: protocol_reserve_element_storage_def arena_inv_def Let_def)
  ultimately show ?thesis by (simp add: arena_inv_def)
next
  case (Attr_Append eid tag payload lp plen)
  have "arena_used (arena_step st op) \<le> UI_ATTR_ARENA_CAP"
    using attr_append_inv [of st eid tag payload lp plen] assms(1) Attr_Append
    by (simp add: arena_inv_def)
  moreover have "element_capacity (arena_step st op) = 0 \<longrightarrow> used_tail (runtime (arena_step st op)) = 0"
    using assms(1) Attr_Append
    by (auto simp: ui_attr_append_def arena_inv_def Let_def)
  ultimately show ?thesis by (simp add: arena_inv_def)
next
  case (Alloc_Tail sz)
  have "arena_used (arena_step st op) \<le> UI_ATTR_ARENA_CAP"
    using alloc_tail_inv [of st sz] assms(1) Alloc_Tail by (simp add: arena_inv_def)
  moreover have "element_capacity (arena_step st op) \<noteq> 0"
    using assms(2) Alloc_Tail step_capacity [of st op] by simp
  ultimately show ?thesis by (simp add: arena_inv_def)
qed

lemma run_inv:
  "arena_inv st \<Longrightarrow> tail_after_reserve st ops \<Longrightarrow> arena_inv (arena_run st ops)"
proof (induction ops arbitrary: st)
  case Nil
  then show ?case by simp
next
  case (Cons op ops)
  from Cons.prems have "arena_inv (arena_step st op)"
    by (intro step_inv) simp_all
  with Cons show ?case by simp
qed

lemma tail_after_reserve_take:
  "tail_after_reserve st ops \<Longrightarrow> tail_after_reserve st (take k ops)"
proof (induction ops arbitrary: st k)
  case Nil
  then show ?case by simp
next
  case (Cons op ops)
  then show ?case by (cases k) auto
qed


text \<open>
  Claim C1 as stated fails for a reservation that follows a tail allocation: the
  reservation compares its own need with the arena size only. A tail node of 4 bytes and
  then storage for 192 elements give \<open>head_used = 768\<close> and \<open>used_tail = 4\<close>, and the
  reservation returns \<open>RES_OK\<close>.
\<close>

theorem arena_bound_counterexample:
  "fst (protocol_reserve_element_storage
          (arena_run protocol_reset_state [Alloc_Tail 4]) 192) = RES_OK
   \<and> arena_used (arena_run protocol_reset_state [Alloc_Tail 4, Reserve_Storage 192]) = 772
   \<and> \<not> arena_used (arena_run protocol_reset_state [Alloc_Tail 4, Reserve_Storage 192])
         \<le> UI_ATTR_ARENA_CAP"
  by code_simp

text \<open>
  Claim C1, amended. From a state with \<open>head_used + used_tail \<le> 768\<close> and no tail node
  before the storage is reserved (the reset state is one), every sequence of arena
  operations that allocates tail nodes only after the storage is reserved keeps
  \<open>head_used + used_tail \<le> 768\<close> after each of its prefixes. A tail allocation that
  would exceed the capacity returns null, an attribute append that would exceed it
  returns \<open>RES_NO_SPACE\<close>, and a reservation that needs more than the arena returns
  \<open>RES_NO_SPACE\<close>; each leaves the state as it was.
\<close>

theorem arena_bound_ordered:
  assumes "arena_inv st" and "tail_after_reserve st ops"
  shows "arena_used (arena_run st (take k ops)) \<le> UI_ATTR_ARENA_CAP
     \<and> (unat (head_used rt) + unat (used_tail rt) + unat sz > UI_ATTR_ARENA_CAP
          \<longrightarrow> ur__alloc_tail rt sz = None)
     \<and> (initialized s = 0 \<and> eid < element_capacity s
          \<and> unat (head_used (runtime s)) + unat (attr_need lp plen)
                + unat (used_tail (runtime s)) > UI_ATTR_ARENA_CAP
          \<longrightarrow> ui_attr_append s eid tag payload lp plen = (RES_NO_SPACE, s))
     \<and> (n \<noteq> 0 \<and> element_capacity s' = 0 \<and> 4 * unat n > UI_ATTR_ARENA_CAP
          \<longrightarrow> protocol_reserve_element_storage s' n = (RES_NO_SPACE, s'))"
proof -
  have "arena_inv (arena_run st (take k ops))"
    using assms by (intro run_inv tail_after_reserve_take)
  then have 1: "arena_used (arena_run st (take k ops)) \<le> UI_ATTR_ARENA_CAP"
    by (simp add: arena_inv_def)
  have 2: "unat (head_used rt) + unat (used_tail rt) + unat sz > UI_ATTR_ARENA_CAP
          \<longrightarrow> ur__alloc_tail rt sz = None"
    by (simp add: ur__alloc_tail_def)
  have 3: "initialized s = 0 \<and> eid < element_capacity s
          \<and> unat (head_used (runtime s)) + unat (attr_need lp plen)
                + unat (used_tail (runtime s)) > UI_ATTR_ARENA_CAP
          \<longrightarrow> ui_attr_append s eid tag payload lp plen = (RES_NO_SPACE, s)"
    by (auto simp: ui_attr_append_def Let_def)
  have 4: "n \<noteq> 0 \<and> element_capacity s' = 0 \<and> 4 * unat n > UI_ATTR_ARENA_CAP
          \<longrightarrow> protocol_reserve_element_storage s' n = (RES_NO_SPACE, s')"
    by (auto simp: protocol_reserve_element_storage_def Let_def reserve_need reserve_need')
  from 1 2 3 4 show ?thesis by blast
qed

definition arena_example_ops :: "arena_op list" where
  "arena_example_ops = [Reserve_Storage 2, Attr_Append 0 UI_ATTR_TAG_TEXT None 1 3,
     Alloc_Tail 12, Alloc_Tail 1000, Attr_Append 1 UI_ATTR_TAG_TEXT None 1 800]"

definition arena_example :: protocol_state_t where
  "arena_example = arena_run protocol_reset_state arena_example_ops"

lemma arena_example_facts:
  "arena_inv protocol_reset_state"
  "tail_after_reserve protocol_reset_state arena_example_ops"
  "arena_used arena_example = 26"
  "unat (head_used (runtime arena_example)) + unat (used_tail (runtime arena_example))
     + unat (1000 :: u16) > UI_ATTR_ARENA_CAP"
  "initialized arena_example = 0 \<and> 1 < element_capacity arena_example
     \<and> unat (head_used (runtime arena_example)) + unat (attr_need 1 800)
          + unat (used_tail (runtime arena_example)) > UI_ATTR_ARENA_CAP"
  "(200 :: u8) \<noteq> 0 \<and> element_capacity protocol_reset_state = 0
     \<and> 4 * unat (200 :: u8) > UI_ATTR_ARENA_CAP"
  by code_simp+

theorem arena_bound_ordered_witness:
  "arena_inv protocol_reset_state
   \<and> tail_after_reserve protocol_reset_state arena_example_ops
   \<and> arena_used (arena_run protocol_reset_state (take 5 arena_example_ops))
        \<le> UI_ATTR_ARENA_CAP
   \<and> ur__alloc_tail (runtime arena_example) 1000 = None
   \<and> ui_attr_append arena_example 1 UI_ATTR_TAG_TEXT None 1 800 = (RES_NO_SPACE, arena_example)
   \<and> protocol_reserve_element_storage protocol_reset_state 200
        = (RES_NO_SPACE, protocol_reset_state)"
  using arena_bound_ordered [OF arena_example_facts(1) arena_example_facts(2),
          where k = 5 and rt = "runtime arena_example" and sz = 1000 and s = arena_example
            and eid = 1 and lp = 1 and plen = 800 and tag = UI_ATTR_TAG_TEXT
            and payload = None and n = 200 and s' = protocol_reset_state]
        arena_example_facts
  by blast


section \<open>Attributes and runtime nodes (ui_runtime.c)\<close>

text \<open>
  \<^verbatim>\<open>ui_attr_find\<close> scans the entries from \<open>attr_base\<close> to \<open>head_used\<close> and returns the
  first one with the tag and the element id; \<open>None\<close> is the null pointer.
\<close>

definition ui_attr_find :: "protocol_state_t \<Rightarrow> u8 \<Rightarrow> u8 \<Rightarrow> attr_entry option" where
  "ui_attr_find st element_id tag =
     (if element_id \<ge> element_capacity st then None
      else find (\<lambda>e. a_tag e = tag \<and> a_element_id e = element_id) (attrs (runtime st)))"

text \<open>A result code with an out-parameter is a sum: \<open>Inl\<close> the error code, \<open>Inr\<close> the value.\<close>

definition ui_attr_get_screen_role :: "protocol_state_t \<Rightarrow> u8 \<Rightarrow> int + u8" where
  "ui_attr_get_screen_role st element_id =
     (case ui_attr_find st element_id UI_ATTR_TAG_SCREEN_ROLE of
        None \<Rightarrow> Inl RES_UNKNOWN_ID
      | Some e \<Rightarrow> Inr (hd (a_body e)))"

text \<open>
  The linked lists of the tail. \<open>ur_list_find\<close> walks from the list head and returns the
  first node of the element; a write through the returned pointer is \<open>ur_list_modify\<close>,
  which changes that first node. \<open>ur_list_get_or_add\<close> returns the node (\<open>None\<close> for
  the null pointer) and the runtime. A new node is pushed at the head; when its offset in
  the arena is 0, \<^verbatim>\<open>ur__off\<close> returns 0 and the head offset becomes the null offset,
  so the list is empty afterwards.
\<close>

definition ur_list_find :: "ui_runtime_t \<Rightarrow> u8 \<Rightarrow> ur_list_state_t option" where
  "ur_list_find rt element_id = find (\<lambda>n. l_element_id n = element_id) (lists rt)"

fun ur_list_modify ::
    "(ur_list_state_t \<Rightarrow> ur_list_state_t) \<Rightarrow> u8 \<Rightarrow> ur_list_state_t list \<Rightarrow> ur_list_state_t list" where
  "ur_list_modify f element_id [] = []"
| "ur_list_modify f element_id (n # ns) =
     (if l_element_id n = element_id then f n # ns else n # ur_list_modify f element_id ns)"

definition ur_list_new :: "u8 \<Rightarrow> ur_list_state_t" where
  "ur_list_new element_id = \<lparr>l_element_id = element_id, l_cursor = 0, l_top_index = 0,
     l_visible_rows = 4, l_anim_active = 0, l_anim_dir = 0, l_anim_pix = 0,
     l_pending_top = 0, l_pending_cursor = 0, l_last_text_child = UR_INVALID_ELEMENT_ID\<rparr>"

definition ur_list_get_or_add ::
    "ui_runtime_t \<Rightarrow> u8 \<Rightarrow> ur_list_state_t option \<times> ui_runtime_t" where
  "ur_list_get_or_add rt element_id =
     (case ur_list_find rt element_id of
        Some s \<Rightarrow> (Some s, rt)
      | None \<Rightarrow>
          (case ur__alloc_tail rt SIZEOF_ur_list_node_t of
             None \<Rightarrow> (None, rt)
           | Some (new_off, rt1) \<Rightarrow>
               (Some (ur_list_new element_id),
                rt1\<lparr>lists := (if new_off = 0 then []
                                else ur_list_new element_id # lists rt1)\<rparr>)))"

definition ur_trigger_find :: "ui_runtime_t \<Rightarrow> u8 \<Rightarrow> ur_trigger_state_t option" where
  "ur_trigger_find rt element_id = find (\<lambda>n. t_element_id n = element_id) (triggers rt)"

definition ur_trigger_get_or_add ::
    "ui_runtime_t \<Rightarrow> u8 \<Rightarrow> ur_trigger_state_t option \<times> ui_runtime_t" where
  "ur_trigger_get_or_add rt element_id =
     (case ur_trigger_find rt element_id of
        Some s \<Rightarrow> (Some s, rt)
      | None \<Rightarrow>
          (case ur__alloc_tail rt SIZEOF_ur_trigger_node_t of
             None \<Rightarrow> (None, rt)
           | Some (new_off, rt1) \<Rightarrow>
               (let n = \<lparr>t_element_id = element_id, t_version = 0\<rparr>
                in (Some n, rt1\<lparr>triggers := (if new_off = 0 then []
                                               else n # triggers rt1)\<rparr>))))"

definition ur_barrel_find :: "ui_runtime_t \<Rightarrow> u8 \<Rightarrow> ur_barrel_state_t option" where
  "ur_barrel_find rt element_id = find (\<lambda>n. b_element_id n = element_id) (barrels rt)"

fun ur_barrel_modify ::
    "(ur_barrel_state_t \<Rightarrow> ur_barrel_state_t) \<Rightarrow> u8 \<Rightarrow> ur_barrel_state_t list
       \<Rightarrow> ur_barrel_state_t list" where
  "ur_barrel_modify f element_id [] = []"
| "ur_barrel_modify f element_id (n # ns) =
     (if b_element_id n = element_id then f n # ns else n # ur_barrel_modify f element_id ns)"

definition ur_barrel_get_or_add ::
    "ui_runtime_t \<Rightarrow> u8 \<Rightarrow> ur_barrel_state_t option \<times> ui_runtime_t" where
  "ur_barrel_get_or_add rt element_id =
     (case ur_barrel_find rt element_id of
        Some s \<Rightarrow> (Some s, rt)
      | None \<Rightarrow>
          (case ur__alloc_tail rt SIZEOF_ur_barrel_node_t of
             None \<Rightarrow> (None, rt)
           | Some (new_off, rt1) \<Rightarrow>
               (let n = \<lparr>b_element_id = element_id, b_aux = 0, b_value = 0\<rparr>
                in (Some n, rt1\<lparr>barrels := (if new_off = 0 then []
                                              else n # barrels rt1)\<rparr>))))"

section \<open>Tree helpers (ui_tree.c, ui_protocol.c)\<close>

definition protocol_screen_role :: "protocol_state_t \<Rightarrow> u8 \<Rightarrow> u8" where
  "protocol_screen_role st element_id =
     (if element_id \<ge> element_count st then OVERLAY_NONE
      else if elements st = [] then OVERLAY_NONE
      else if el_type (elements st ! unat element_id) \<noteq> ELEMENT_SCREEN then OVERLAY_NONE
      else case ui_attr_get_screen_role st element_id of
             Inl rc \<Rightarrow> OVERLAY_NONE
           | Inr role \<Rightarrow> role)"

text \<open>
  A loop \<^verbatim>\<open>for (uint8_t i = 0; i < element_count; i++)\<close> is a recursion on the number
  \<open>k\<close> of iterations left, started with \<open>element_count\<close>; \<open>i\<close> is the loop counter and
  the remaining arguments are the local variables of the C function.
\<close>

fun list_item_count_loop :: "protocol_state_t \<Rightarrow> u8 \<Rightarrow> u8 \<Rightarrow> u8 \<Rightarrow> nat \<Rightarrow> u8" where
  "list_item_count_loop st list_eid i cnt 0 = cnt"
| "list_item_count_loop st list_eid i cnt (Suc k) =
     (if parent_id (elements st ! unat i) = list_eid
         \<and> el_type (elements st ! unat i) = ELEMENT_TEXT
      then list_item_count_loop st list_eid (i + 1) (cnt + 1) k
      else list_item_count_loop st list_eid (i + 1) cnt k)"

definition list_item_count :: "protocol_state_t \<Rightarrow> u8 \<Rightarrow> u8" where
  "list_item_count st list_eid =
     list_item_count_loop st list_eid 0 0 (unat (element_count st))"

fun find_screen_id_loop :: "protocol_state_t \<Rightarrow> u8 \<Rightarrow> u8 \<Rightarrow> u8 \<Rightarrow> nat \<Rightarrow> u8" where
  "find_screen_id_loop st sord i seen 0 = INVALID_ELEMENT_ID"
| "find_screen_id_loop st sord i seen (Suc k) =
     (if el_type (elements st ! unat i) = ELEMENT_SCREEN
         \<and> protocol_screen_role st i = OVERLAY_NONE
         \<and> parent_id (elements st ! unat i) = INVALID_ELEMENT_ID
      then (if seen = sord then i
            else find_screen_id_loop st sord (i + 1) (seen + 1) k)
      else find_screen_id_loop st sord (i + 1) seen k)"

definition find_screen_id_by_ordinal :: "protocol_state_t \<Rightarrow> u8 \<Rightarrow> u8" where
  "find_screen_id_by_ordinal st sord =
     find_screen_id_loop st sord 0 0 (unat (element_count st))"

fun find_screen_ordinal_loop :: "protocol_state_t \<Rightarrow> u8 \<Rightarrow> u8 \<Rightarrow> u8 \<Rightarrow> nat \<Rightarrow> u8" where
  "find_screen_ordinal_loop st screen_id i ord 0 = INVALID_ELEMENT_ID"
| "find_screen_ordinal_loop st screen_id i ord (Suc k) =
     (if el_type (elements st ! unat i) \<noteq> ELEMENT_SCREEN
      then find_screen_ordinal_loop st screen_id (i + 1) ord k
      else if protocol_screen_role st i \<noteq> OVERLAY_NONE
      then find_screen_ordinal_loop st screen_id (i + 1) ord k
      else if i = screen_id then ord
      else find_screen_ordinal_loop st screen_id (i + 1) (ord + 1) k)"

definition find_screen_ordinal_by_id :: "protocol_state_t \<Rightarrow> u8 \<Rightarrow> u8" where
  "find_screen_ordinal_by_id st screen_id =
     (if screen_id \<ge> element_count st then INVALID_ELEMENT_ID
      else if el_type (elements st ! unat screen_id) \<noteq> ELEMENT_SCREEN then INVALID_ELEMENT_ID
      else if parent_id (elements st ! unat screen_id) \<noteq> INVALID_ELEMENT_ID
      then INVALID_ELEMENT_ID
      else find_screen_ordinal_loop st screen_id 0 0 (unat (element_count st)))"

text \<open>
  The parent walks \<^verbatim>\<open>for (uint16_t depth = 0; depth < element_count; depth++)\<close>: \<open>k\<close> is
  the number of steps left. A C function that returns 1 or 0 is a predicate.
\<close>

fun element_root_screen_walk :: "protocol_state_t \<Rightarrow> u8 \<Rightarrow> nat \<Rightarrow> u8" where
  "element_root_screen_walk st current 0 = INVALID_ELEMENT_ID"
| "element_root_screen_walk st current (Suc k) =
     (if current = INVALID_ELEMENT_ID then INVALID_ELEMENT_ID
      else if current \<ge> element_count st then INVALID_ELEMENT_ID
      else if el_type (elements st ! unat current) = ELEMENT_SCREEN then current
      else element_root_screen_walk st (parent_id (elements st ! unat current)) k)"

definition element_root_screen :: "protocol_state_t \<Rightarrow> u8 \<Rightarrow> u8" where
  "element_root_screen st eid =
     (if eid \<ge> element_count st then INVALID_ELEMENT_ID
      else element_root_screen_walk st eid (unat (element_count st)))"

fun is_descendant_walk :: "protocol_state_t \<Rightarrow> u8 \<Rightarrow> u8 \<Rightarrow> nat \<Rightarrow> bool" where
  "is_descendant_walk st ancestor current 0 = False"
| "is_descendant_walk st ancestor current (Suc k) =
     (if current = INVALID_ELEMENT_ID then False
      else if current \<ge> element_count st then False
      else if current = ancestor then True
      else is_descendant_walk st ancestor (parent_id (elements st ! unat current)) k)"

definition is_descendant_of :: "protocol_state_t \<Rightarrow> u8 \<Rightarrow> u8 \<Rightarrow> bool" where
  "is_descendant_of st eid ancestor =
     (if ancestor = INVALID_ELEMENT_ID then False
      else is_descendant_walk st ancestor eid (unat (element_count st)))"

section \<open>Focus and navigation (src/slave/ui_focus.c)\<close>

definition nav_active_context :: "protocol_state_t \<Rightarrow> u8" where
  "nav_active_context st =
     (if nav_depth st = 0 then find_screen_id_by_ordinal st (active_screen st)
      else
        (let top = nav_depth st - 1
         in if top \<ge> NAV_STACK_MAX_DEPTH then INVALID_ELEMENT_ID
            else n_target_element (nav_stack st ! unat top)))"

definition nav_update_active_local_screen :: "protocol_state_t \<Rightarrow> protocol_state_t" where
  "nav_update_active_local_screen st =
     (let st1 = st\<lparr>active_local_screen := INVALID_ELEMENT_ID\<rparr>
      in if nav_depth st1 = 0 then st1
         else
           (let top = nav_depth st1 - 1
            in if top \<ge> NAV_STACK_MAX_DEPTH then st1
               else if n_type (nav_stack st1 ! unat top) = NAV_CTX_LOCAL_SCREEN
               then st1\<lparr>active_local_screen := n_target_element (nav_stack st1 ! unat top)\<rparr>
               else st1))"

text \<open>The loop over the stack entries below \<open>depth\<close>, with \<open>depth\<close> clamped to the stack size.\<close>

definition nav_target_active :: "protocol_state_t \<Rightarrow> u8 \<Rightarrow> bool" where
  "nav_target_active st target_id =
     (if target_id = INVALID_ELEMENT_ID then False
      else
        (let depth = (if nav_depth st > NAV_STACK_MAX_DEPTH then NAV_STACK_MAX_DEPTH
                      else nav_depth st)
         in list_ex (\<lambda>e. n_target_element e = target_id) (take (unat depth) (nav_stack st))))"

definition screen_is_local :: "protocol_state_t \<Rightarrow> u8 \<Rightarrow> bool" where
  "screen_is_local st screen_id =
     (if screen_id \<ge> element_count st then False
      else if el_type (elements st ! unat screen_id) \<noteq> ELEMENT_SCREEN then False
      else
        (let parent = parent_id (elements st ! unat screen_id)
         in if parent = INVALID_ELEMENT_ID \<or> parent \<ge> element_count st then False
            else el_type (elements st ! unat parent) = ELEMENT_TEXT))"

text \<open>
  The last loop of \<^verbatim>\<open>protocol_is_element_visible\<close>: a list whose parent is a text row of
  another list is visible only when it is a target on the navigation stack.
\<close>

definition nested_list_hidden :: "protocol_state_t \<Rightarrow> u8 \<Rightarrow> bool" where
  "nested_list_hidden st current =
     (let current_el = elements st ! unat current
      in if el_type current_el = ELEMENT_LIST_VIEW then
           (let owner_text = parent_id current_el
            in if owner_text \<noteq> INVALID_ELEMENT_ID \<and> owner_text < element_count st then
                 (let owner_el = elements st ! unat owner_text
                  in if el_type owner_el = ELEMENT_TEXT then
                       (let list_parent = parent_id owner_el
                        in if list_parent \<noteq> INVALID_ELEMENT_ID
                              \<and> list_parent < element_count st then
                             (if el_type (elements st ! unat list_parent) = ELEMENT_LIST_VIEW
                              then \<not> nav_target_active st current
                              else False)
                           else False)
                     else False)
               else False)
         else False)"

fun visible_ancestors_walk :: "protocol_state_t \<Rightarrow> u8 \<Rightarrow> nat \<Rightarrow> bool" where
  "visible_ancestors_walk st current 0 = True"
| "visible_ancestors_walk st current (Suc k) =
     (if current = INVALID_ELEMENT_ID then True
      else if current \<ge> element_count st then True
      else if nested_list_hidden st current then False
      else visible_ancestors_walk st (parent_id (elements st ! unat current)) k)"

definition protocol_is_element_visible :: "protocol_state_t \<Rightarrow> u8 \<Rightarrow> bool" where
  "protocol_is_element_visible st eid =
     (if eid \<ge> element_count st then False
      else
        (let context = nav_active_context st;
             extra_screen =
               (if nav_depth st = 0 \<and> sa_active (screen_anim st) \<noteq> 0 then
                  (let x = find_screen_id_by_ordinal st (sa_from_screen (screen_anim st))
                   in if x = context then INVALID_ELEMENT_ID else x)
                else INVALID_ELEMENT_ID)
         in if context = INVALID_ELEMENT_ID \<and> extra_screen = INVALID_ELEMENT_ID then False
            else if nav_depth st \<noteq> 0 \<and> nav_depth st - 1 \<ge> NAV_STACK_MAX_DEPTH then False
            else
              (let visible =
                     (if nav_depth st = 0 then
                        (let v = (if context \<noteq> INVALID_ELEMENT_ID
                                  then is_descendant_of st eid context else False)
                         in if \<not> v \<and> extra_screen \<noteq> INVALID_ELEMENT_ID
                            then is_descendant_of st eid extra_screen else v)
                      else
                        (let entry = nav_stack st ! unat (nav_depth st - 1)
                         in if eid = n_target_element entry then True
                            else is_descendant_of st eid (n_target_element entry)))
               in if \<not> visible then False
                  else
                    (let root_screen = element_root_screen st eid
                     in if root_screen = INVALID_ELEMENT_ID then False
                        else if screen_is_local st root_screen
                                \<and> \<not> nav_target_active st root_screen then False
                        else visible_ancestors_walk st eid (unat (element_count st))))))"

definition element_focusable :: "protocol_state_t \<Rightarrow> u8 \<Rightarrow> bool" where
  "element_focusable st eid =
     (if eid \<ge> element_count st then False
      else
        (let ty = el_type (elements st ! unat eid)
         in ty = ELEMENT_LIST_VIEW \<or> ty = ELEMENT_NUMBER_EDIT \<or> ty = ELEMENT_TRIGGER
            \<or> ty = ELEMENT_BARREL))"

definition protocol_set_focus :: "protocol_state_t \<Rightarrow> u8 \<Rightarrow> protocol_state_t" where
  "protocol_set_focus st element_id =
     (if element_id \<ge> element_count st then st
      else if \<not> protocol_is_element_visible st element_id then st
      else if \<not> element_focusable st element_id then st
      else st\<lparr>focused_element := element_id\<rparr>)"

definition protocol_clear_focus :: "protocol_state_t \<Rightarrow> protocol_state_t" where
  "protocol_clear_focus st = st\<lparr>focused_element := INVALID_ELEMENT_ID\<rparr>"

fun focus_first_under_loop :: "protocol_state_t \<Rightarrow> u8 \<Rightarrow> u8 \<Rightarrow> nat \<Rightarrow> protocol_state_t" where
  "focus_first_under_loop st owner_id i 0 = protocol_clear_focus st"
| "focus_first_under_loop st owner_id i (Suc k) =
     (if \<not> protocol_is_element_visible st i then focus_first_under_loop st owner_id (i + 1) k
      else if i \<noteq> owner_id \<and> \<not> is_descendant_of st i owner_id
      then focus_first_under_loop st owner_id (i + 1) k
      else if element_focusable st i then protocol_set_focus st i
      else focus_first_under_loop st owner_id (i + 1) k)"

definition protocol_focus_first_under :: "protocol_state_t \<Rightarrow> u8 \<Rightarrow> protocol_state_t" where
  "protocol_focus_first_under st owner_id =
     focus_first_under_loop st owner_id 0 (unat (element_count st))"

fun focus_first_on_screen_loop :: "protocol_state_t \<Rightarrow> u8 \<Rightarrow> u8 \<Rightarrow> nat \<Rightarrow> protocol_state_t" where
  "focus_first_on_screen_loop st screen_eid i 0 = protocol_clear_focus st"
| "focus_first_on_screen_loop st screen_eid i (Suc k) =
     (if \<not> protocol_is_element_visible st i
      then focus_first_on_screen_loop st screen_eid (i + 1) k
      else if \<not> is_descendant_of st i screen_eid
      then focus_first_on_screen_loop st screen_eid (i + 1) k
      else if \<not> element_focusable st i
      then focus_first_on_screen_loop st screen_eid (i + 1) k
      else protocol_set_focus st i)"

definition protocol_focus_first_on_screen :: "protocol_state_t \<Rightarrow> u8 \<Rightarrow> protocol_state_t" where
  "protocol_focus_first_on_screen st sord =
     (if nav_depth st \<noteq> 0 then st
      else
        (let screen_eid = find_screen_id_by_ordinal st sord
         in if screen_eid = INVALID_ELEMENT_ID then protocol_clear_focus st
            else focus_first_on_screen_loop st screen_eid 0 (unat (element_count st))))"

definition protocol_register_local_screen ::
    "protocol_state_t \<Rightarrow> u8 \<Rightarrow> u8 \<Rightarrow> protocol_state_t" where
  "protocol_register_local_screen st screen_id owner_text =
     (if screen_id \<ge> element_count st then st
      else
        (let owner = (if owner_text \<ge> element_count st then INVALID_ELEMENT_ID
                      else owner_text)
         in if owner \<noteq> INVALID_ELEMENT_ID
            then st\<lparr>elements := (elements st)[unat screen_id :=
                        (elements st ! unat screen_id)\<lparr>parent_id := owner\<rparr>]\<rparr>
            else st))"

subsection \<open>Navigation stack\<close>

text \<open>
  A push or pop returns the C return value (1 or 0) and the state. The list nodes are
  read through the pointers returned by \<^verbatim>\<open>ur_list_get_or_add\<close> and written with
  \<open>ur_list_modify\<close>.
\<close>

definition nav_push_list :: "protocol_state_t \<Rightarrow> u8 \<Rightarrow> u8 \<Rightarrow> u8 \<times> protocol_state_t" where
  "nav_push_list st parent_list target_list =
     (if nav_depth st \<ge> NAV_STACK_MAX_DEPTH then (0, st)
      else
        (let (parent_state, rt1) = ur_list_get_or_add (runtime st) parent_list;
             (child_state, rt2) = ur_list_get_or_add rt1 target_list
         in case (parent_state, child_state) of
              (Some ps, Some cs) \<Rightarrow>
                (let entry = \<lparr>n_type = NAV_CTX_LIST, n_target_element = target_list,
                       n_return_list = parent_list, n_saved_cursor = l_cursor ps,
                       n_saved_top = l_top_index ps, n_saved_focus = focused_element st,
                       n_saved_active_screen = active_screen st\<rparr>;
                     rt3 = rt2\<lparr>lists := ur_list_modify
                             (\<lambda>n. n\<lparr>l_cursor := 0, l_top_index := 0, l_anim_active := 0,
                                     l_anim_pix := 0, l_anim_dir := 0\<rparr>)
                             target_list (lists rt2)\<rparr>;
                     st1 = st\<lparr>runtime := rt3,
                              nav_stack := (nav_stack st)[unat (nav_depth st) := entry],
                              nav_depth := nav_depth st + 1\<rparr>;
                     st2 = nav_update_active_local_screen st1
                 in (1, protocol_set_focus st2 target_list))
            | _ \<Rightarrow> (0, st\<lparr>runtime := rt2\<rparr>)))"

definition nav_push_local_screen ::
    "protocol_state_t \<Rightarrow> u8 \<Rightarrow> u8 \<Rightarrow> u8 \<times> protocol_state_t" where
  "nav_push_local_screen st parent_list screen_id =
     (if nav_depth st \<ge> NAV_STACK_MAX_DEPTH then (0, st)
      else
        (let (parent_state, rt1) = ur_list_get_or_add (runtime st) parent_list
         in case parent_state of
              None \<Rightarrow> (0, st\<lparr>runtime := rt1\<rparr>)
            | Some ps \<Rightarrow>
                (let entry = \<lparr>n_type = NAV_CTX_LOCAL_SCREEN, n_target_element = screen_id,
                       n_return_list = parent_list, n_saved_cursor = l_cursor ps,
                       n_saved_top = l_top_index ps, n_saved_focus = focused_element st,
                       n_saved_active_screen = active_screen st\<rparr>;
                     st1 = st\<lparr>runtime := rt1,
                              nav_stack := (nav_stack st)[unat (nav_depth st) := entry]\<rparr>;
                     new_ord = find_screen_ordinal_by_id st1 screen_id;
                     st2 = (if new_ord \<noteq> INVALID_ELEMENT_ID
                            then st1\<lparr>active_screen := new_ord,
                                     scroll_x := ucast new_ord * 128\<rparr>
                            else st1);
                     st3 = nav_update_active_local_screen
                             (st2\<lparr>nav_depth := nav_depth st2 + 1\<rparr>);
                     st4 = protocol_focus_first_under st3 screen_id
                 in (1, if focused_element st4 = INVALID_ELEMENT_ID
                        then protocol_set_focus st4 parent_list else st4))))"

definition nav_pop :: "protocol_state_t \<Rightarrow> u8 \<times> protocol_state_t" where
  "nav_pop st =
     (if nav_depth st = 0 then (0, st)
      else
        (let top_index = nav_depth st - 1
         in if top_index \<ge> NAV_STACK_MAX_DEPTH then (0, st)
            else
              (let entry = nav_stack st ! unat top_index;
                   st1 = nav_update_active_local_screen (st\<lparr>nav_depth := top_index\<rparr>);
                   st2 = (if n_return_list entry \<noteq> INVALID_ELEMENT_ID then
                            (let (parent_state, rt1) =
                                   ur_list_get_or_add (runtime st1) (n_return_list entry)
                             in case parent_state of
                                  None \<Rightarrow> st1\<lparr>runtime := rt1\<rparr>
                                | Some ps \<Rightarrow>
                                    st1\<lparr>runtime := rt1\<lparr>lists := ur_list_modify
                                       (\<lambda>n. n\<lparr>l_cursor := n_saved_cursor entry,
                                               l_top_index := n_saved_top entry,
                                               l_anim_active := 0, l_anim_pix := 0,
                                               l_anim_dir := 0\<rparr>)
                                       (n_return_list entry) (lists rt1)\<rparr>\<rparr>)
                          else st1);
                   st3 = (if n_type entry = NAV_CTX_LOCAL_SCREEN
                          then st2\<lparr>active_screen := n_saved_active_screen entry,
                                   scroll_x := ucast (n_saved_active_screen entry) * 128\<rparr>
                          else st2)
               in (1, if n_return_list entry \<noteq> INVALID_ELEMENT_ID
                      then protocol_set_focus st3 (n_return_list entry)
                      else protocol_clear_focus st3))))"

section \<open>Numeric values (src/slave/ui_numeric.c, ui_protocol.c)\<close>

text \<open>The C \<^verbatim>\<open>int\<close> argument is an integer; the clamp makes the cast to \<^verbatim>\<open>int16_t\<close> exact.\<close>

definition clamp_int16 :: "int \<Rightarrow> int" where
  "clamp_int16 v = (if v < -32768 then -32768 else if v > 32767 then 32767 else v)"

definition numeric_store :: "protocol_state_t \<Rightarrow> u8 \<Rightarrow> int \<Rightarrow> u8 \<Rightarrow> protocol_state_t" where
  "numeric_store st ident v aux =
     (if ident \<ge> element_count st then st
      else
        (let v1 = clamp_int16 v;
             (bs, rt1) = ur_barrel_get_or_add (runtime st) ident
         in case bs of
              None \<Rightarrow> st\<lparr>runtime := rt1\<rparr>
            | Some b \<Rightarrow>
                st\<lparr>runtime := rt1\<lparr>barrels := ur_barrel_modify
                      (\<lambda>n. n\<lparr>b_value := word_of_int v1, b_aux := aux\<rparr>) ident (barrels rt1)\<rparr>\<rparr>))"

definition numeric_set_value :: "protocol_state_t \<Rightarrow> u8 \<Rightarrow> int \<Rightarrow> protocol_state_t" where
  "numeric_set_value st ident v =
     (if ident \<ge> element_count st then st
      else
        (let v1 = clamp_int16 v;
             (bs, rt1) = ur_barrel_get_or_add (runtime st) ident
         in case bs of
              None \<Rightarrow> st\<lparr>runtime := rt1\<rparr>
            | Some b \<Rightarrow>
                st\<lparr>runtime := rt1\<lparr>barrels := ur_barrel_modify
                      (\<lambda>n. n\<lparr>b_value := word_of_int v1\<rparr>) ident (barrels rt1)\<rparr>\<rparr>))"

definition protocol_numeric_value :: "protocol_state_t \<Rightarrow> u8 \<Rightarrow> int" where
  "protocol_numeric_value st element_id =
     (case ur_barrel_find (runtime st) element_id of
        None \<Rightarrow> 0
      | Some b \<Rightarrow> sint (b_value b))"

definition protocol_numeric_aux :: "protocol_state_t \<Rightarrow> u8 \<Rightarrow> u8" where
  "protocol_numeric_aux st element_id =
     (case ur_barrel_find (runtime st) element_id of
        None \<Rightarrow> 0
      | Some b \<Rightarrow> b_aux b)"

section \<open>Descriptor parser (ui_protocol.c)\<close>

text \<open>
  A descriptor is a list of bytes. \<open>bytes_of\<close> gives the bytes of an ASCII string, used
  for the key names and in examples.
\<close>

definition bytes_of :: "string \<Rightarrow> u8 list" where
  "bytes_of s = map of_char s"

abbreviation (input) CH_QUOTE :: u8 where "CH_QUOTE \<equiv> 0x22"
abbreviation (input) CH_COLON :: u8 where "CH_COLON \<equiv> 0x3A"
abbreviation (input) CH_MINUS :: u8 where "CH_MINUS \<equiv> 0x2D"
abbreviation (input) CH_LBRACE :: u8 where "CH_LBRACE \<equiv> 0x7B"
abbreviation (input) CH_RBRACE :: u8 where "CH_RBRACE \<equiv> 0x7D"

definition is_space_char :: "u8 \<Rightarrow> bool" where
  "is_space_char c = (c = 0x20 \<or> c = 0x09 \<or> c = 0x0A \<or> c = 0x0D \<or> c = 0x0C \<or> c = 0x0B)"

definition is_digit_char :: "u8 \<Rightarrow> bool" where
  "is_digit_char c = (c \<ge> 0x30 \<and> c \<le> 0x39)"

definition err :: int where
  "err = RES_PARSE_FAIL"

text \<open>
  The pointers \<open>p\<close> and \<open>q\<close> of the extractors run over the span from \<open>s\<close> up to, not
  including, \<open>e\<close>: a pointer is the list of the bytes from it to \<open>e\<close>, and \<open>q >= e\<close> is the
  empty list. \<^verbatim>\<open>while (q < e && is_space_char(*q)) q++\<close> is \<open>skip_spaces\<close>.
\<close>

fun skip_spaces :: "u8 list \<Rightarrow> u8 list" where
  "skip_spaces [] = []"
| "skip_spaces (c # cs) = (if is_space_char c then skip_spaces cs else c # cs)"

text \<open>
  The digit loop with its variables \<open>val\<close> and \<open>any\<close>. The accumulator is the 32-bit
  \<^verbatim>\<open>int val\<close>: \<open>val * 10 + (*q - '0')\<close> wraps modulo \<open>2 ^ 32\<close>, as the arithmetic of
  the target does, so a digit string beyond the range of \<^verbatim>\<open>int\<close> is read as its value
  in two's complement.
\<close>

fun parse_digits :: "u8 list \<Rightarrow> 32 word \<Rightarrow> bool \<Rightarrow> 32 word \<times> bool" where
  "parse_digits [] val any = (val, any)"
| "parse_digits (c # cs) val any =
     (if is_digit_char c then parse_digits cs (val * 10 + (ucast c - 0x30)) True
      else (val, any))"

text \<open>
  \<^verbatim>\<open>extract_int_key(s, e, key, out)\<close>: \<open>Some v\<close> is the return value 0 with \<open>*out = v\<close>,
  \<open>None\<close> is \<open>RES_PARSE_FAIL\<close>, which leaves \<open>*out\<close> as the caller set it. The argument of
  the scan is the pointer \<open>p\<close> of the outer loop. \<open>sign\<close> and \<open>val\<close> are 32-bit, and
  \<open>v\<close> is the signed reading of the 32-bit product \<open>sign * val\<close>.
\<close>

fun extract_int_scan :: "u8 list \<Rightarrow> u8 list \<Rightarrow> int option" where
  "extract_int_scan key [] = None"
| "extract_int_scan key (c # cs) =
     (if length (c # cs) < length key + 3 then None
      else if c \<noteq> CH_QUOTE then extract_int_scan key cs
      else if length (c # cs) \<le> length key + 2 then None
      else if take (length key) cs \<noteq> key then extract_int_scan key cs
      else if cs ! length key \<noteq> CH_QUOTE then extract_int_scan key cs
      else
        (case skip_spaces (drop (length key + 1) cs) of
           [] \<Rightarrow> extract_int_scan key cs
         | d # q1 \<Rightarrow>
             if d \<noteq> CH_COLON then extract_int_scan key cs
             else
               (case skip_spaces q1 of
                  [] \<Rightarrow> None
                | f # q3 \<Rightarrow>
                    (let q4 = (if f = CH_QUOTE then q3 else f # q3);
                         (sign, q5) = (case q4 of
                                         [] \<Rightarrow> (1 :: 32 word, q4)
                                       | m # r \<Rightarrow> if m = CH_MINUS then (-1, r) else (1, q4));
                         (val, any) = parse_digits q5 0 False
                     in if \<not> any then None else Some (sint (sign * val))))))"

definition extract_int_key :: "u8 list \<Rightarrow> u8 list \<Rightarrow> int option" where
  "extract_int_key buf key = (if key = [] then None else extract_int_scan key buf)"

text \<open>
  \<^verbatim>\<open>extract_string_key(s, e, key, out, outsz)\<close> returns whether the result is 0 and the
  characters it stored in \<open>out\<close>. On success a terminator follows them. On the failure
  \<open>q >= e\<close> after the copy loop the characters stay in \<open>out\<close> without a terminator.
  \<open>copy_string\<close> is the copy loop: the characters stored and the pointer \<open>q\<close> after it.
\<close>

fun copy_string :: "u8 list \<Rightarrow> nat \<Rightarrow> u8 list \<Rightarrow> u8 list \<times> u8 list" where
  "copy_string [] outsz out = (out, [])"
| "copy_string (c # cs) outsz out =
     (if c \<noteq> CH_QUOTE \<and> length out + 1 < outsz then copy_string cs outsz (out @ [c])
      else (out, c # cs))"

fun extract_string_scan :: "u8 list \<Rightarrow> nat \<Rightarrow> u8 list \<Rightarrow> bool \<times> u8 list" where
  "extract_string_scan key outsz [] = (False, [])"
| "extract_string_scan key outsz (c # cs) =
     (if length (c # cs) < length key + 3 then (False, [])
      else if c \<noteq> CH_QUOTE then extract_string_scan key outsz cs
      else if length (c # cs) \<le> length key + 2 then (False, [])
      else if take (length key) cs \<noteq> key then extract_string_scan key outsz cs
      else if cs ! length key \<noteq> CH_QUOTE then extract_string_scan key outsz cs
      else
        (case skip_spaces (drop (length key + 1) cs) of
           [] \<Rightarrow> extract_string_scan key outsz cs
         | d # q1 \<Rightarrow>
             if d \<noteq> CH_COLON then extract_string_scan key outsz cs
             else
               (case skip_spaces q1 of
                  [] \<Rightarrow> (False, [])
                | f # q3 \<Rightarrow>
                    if f \<noteq> CH_QUOTE then (False, [])
                    else
                      (let (out, q) = copy_string q3 outsz []
                       in if q = [] then (False, out) else (True, out)))))"

definition extract_string_key :: "u8 list \<Rightarrow> u8 list \<Rightarrow> nat \<Rightarrow> bool \<times> u8 list" where
  "extract_string_key buf key outsz =
     (if key = [] \<or> outsz = 0 then (False, []) else extract_string_scan key outsz buf)"

text \<open>A buffer read as a C string: the bytes before the first zero byte.\<close>

definition c_str :: "u8 list \<Rightarrow> u8 list" where
  "c_str bs = takeWhile (\<lambda>c. c \<noteq> 0) bs"

definition map_type_key :: "u8 list \<Rightarrow> u8" where
  "map_type_key s =
     (case s of
        [] \<Rightarrow> 0xFF
      | [c] \<Rightarrow>
          (if c = of_char CHR ''s'' then ELEMENT_SCREEN
           else if c = of_char CHR ''t'' then ELEMENT_TEXT
           else if c = of_char CHR ''l'' then ELEMENT_LIST_VIEW
           else if c = of_char CHR ''b'' then ELEMENT_BARREL
           else if c = of_char CHR ''i'' then ELEMENT_TRIGGER
           else 0xFF)
      | [a, b] \<Rightarrow>
          (if a = of_char CHR ''t'' \<and> b = of_char CHR ''e'' then ELEMENT_TEXT
           else if a = of_char CHR ''l'' \<and> b = of_char CHR ''i'' then ELEMENT_LIST_VIEW
           else if a = of_char CHR ''b'' \<and> b = of_char CHR ''a'' then ELEMENT_BARREL
           else if a = of_char CHR ''t'' \<and> b = of_char CHR ''r'' then ELEMENT_TRIGGER
           else 0xFF)
      | _ \<Rightarrow> 0xFF)"

section \<open>Text, role and position attributes (ui_runtime.c)\<close>

text \<open>
  A write through the pointer returned by \<^verbatim>\<open>ui_attr_find\<close> changes the first entry with
  the tag and the element id. The body of a text entry is the size byte followed by the
  payload; \<open>text_write\<close> copies \<open>w\<close> characters and stores the terminator at \<open>data[w]\<close>.
\<close>

fun attr_modify ::
    "(attr_entry \<Rightarrow> attr_entry) \<Rightarrow> u8 \<Rightarrow> u8 \<Rightarrow> attr_entry list \<Rightarrow> attr_entry list" where
  "attr_modify f element_id tag [] = []"
| "attr_modify f element_id tag (e # es) =
     (if a_tag e = tag \<and> a_element_id e = element_id then f e # es
      else e # attr_modify f element_id tag es)"

definition text_write :: "u8 list \<Rightarrow> nat \<Rightarrow> attr_entry \<Rightarrow> attr_entry" where
  "text_write text w e =
     e\<lparr>a_body := (case a_body e of
                     [] \<Rightarrow> []
                   | sz # data \<Rightarrow> sz # (take w text @ drop w data)[w := 0])\<rparr>"

definition attrs_update ::
    "protocol_state_t \<Rightarrow> (attr_entry list \<Rightarrow> attr_entry list) \<Rightarrow> protocol_state_t" where
  "attrs_update st f = st\<lparr>runtime := (runtime st)\<lparr>attrs := f (attrs (runtime st))\<rparr>\<rparr>"

definition ui_attr_store_text_with_cap ::
    "protocol_state_t \<Rightarrow> u8 \<Rightarrow> u8 list \<Rightarrow> u8 \<Rightarrow> int \<times> protocol_state_t" where
  "ui_attr_store_text_with_cap st element_id text capacity =
     (let len = (of_nat (length text) :: u8)
      in case ui_attr_find st element_id UI_ATTR_TAG_TEXT of
           Some e \<Rightarrow>
             (let sz = hd (a_body e)
              in if sz = 0 then (RES_NO_SPACE, st)
                 else
                   (let w = (if len < sz - 1 then len else sz - 1)
                    in (RES_OK, attrs_update st
                          (attr_modify (text_write text (unat w)) element_id UI_ATTR_TAG_TEXT))))
         | None \<Rightarrow>
             (let cap = (if capacity \<noteq> 0 then capacity else len);
                  (res, st1) = ui_attr_append st element_id UI_ATTR_TAG_TEXT None 1
                                 (ucast cap + 1)
              in if res \<noteq> RES_OK then (res, st1)
                 else
                   (case ui_attr_find st1 element_id UI_ATTR_TAG_TEXT of
                      None \<Rightarrow> (RES_UNKNOWN_ID, st1)
                    | Some e2 \<Rightarrow>
                        (let w = (if len < cap then len else cap)
                         in (RES_OK, attrs_update st1
                               (attr_modify (text_write text (unat w)) element_id
                                  UI_ATTR_TAG_TEXT))))))"

definition ui_attr_update_text ::
    "protocol_state_t \<Rightarrow> u8 \<Rightarrow> u8 list \<Rightarrow> int \<times> protocol_state_t" where
  "ui_attr_update_text st element_id new_text =
     (case ui_attr_find st element_id UI_ATTR_TAG_TEXT of
        None \<Rightarrow> (RES_UNKNOWN_ID, st)
      | Some e \<Rightarrow>
          (let sz = hd (a_body e);
               nlen = (of_nat (length new_text) :: u8)
           in if sz = 0 then (RES_NO_SPACE, st)
              else
                (let w = (if nlen < sz - 1 then nlen else sz - 1)
                 in (RES_OK, attrs_update st
                       (attr_modify (text_write new_text (unat w)) element_id
                          UI_ATTR_TAG_TEXT)))))"

definition ui_attr_store_position ::
    "protocol_state_t \<Rightarrow> u8 \<Rightarrow> u8 \<Rightarrow> u8 \<Rightarrow> int \<times> protocol_state_t" where
  "ui_attr_store_position st element_id x y =
     (if pos_x st = [] \<or> pos_y st = [] then (RES_BAD_STATE, st)
      else if element_id \<ge> element_capacity st then (RES_RANGE, st)
      else (RES_OK, st\<lparr>pos_x := (pos_x st)[unat element_id := x],
                        pos_y := (pos_y st)[unat element_id := y]\<rparr>))"

definition ui_attr_store_screen_role ::
    "protocol_state_t \<Rightarrow> u8 \<Rightarrow> u8 \<Rightarrow> int \<times> protocol_state_t" where
  "ui_attr_store_screen_role st element_id role =
     (case ui_attr_find st element_id UI_ATTR_TAG_SCREEN_ROLE of
        Some e \<Rightarrow>
          (RES_OK, attrs_update st
             (attr_modify (\<lambda>e. e\<lparr>a_body := [role]\<rparr>) element_id UI_ATTR_TAG_SCREEN_ROLE))
      | None \<Rightarrow> ui_attr_append st element_id UI_ATTR_TAG_SCREEN_ROLE (Some [role]) 0 1)"

section \<open>Element creation and update (ui_protocol.c)\<close>

text \<open>
  \<^verbatim>\<open>add_basic_element\<close> returns the new id, or 0xFF, and the state. The \<^verbatim>\<open>int\<close>
  coordinates are cast to \<^verbatim>\<open>uint8_t\<close>.
\<close>

definition add_basic_element ::
    "protocol_state_t \<Rightarrow> u8 \<Rightarrow> u8 \<Rightarrow> int \<Rightarrow> int \<Rightarrow> u8 \<times> protocol_state_t" where
  "add_basic_element st parent ty x y =
     (if element_capacity st = 0 then (0xFF, st)
      else if element_count st \<ge> element_capacity st then (0xFF, st)
      else if elements st = [] \<or> pos_x st = [] \<or> pos_y st = [] then (0xFF, st)
      else
        (let ident = element_count st;
             st1 = st\<lparr>element_count := element_count st + 1\<rparr>;
             st2 = st1\<lparr>elements := (elements st1)[unat ident :=
                         \<lparr>parent_id = parent, el_type = ty\<rparr>]\<rparr>;
             (rc, st3) = ui_attr_store_position st2 ident (word_of_int x) (word_of_int y)
         in (ident, st3)))"

record element_create_ctx_t =
  c_parent_id :: u8
  c_x :: int
  c_y :: int
  c_type_code :: u8
  c_os :: "u8 list"

text \<open>The fields \<open>os\<close> and \<open>oe\<close> of both contexts are the span \<open>c_os\<close> of the descriptor.\<close>

definition lists_update ::
    "protocol_state_t \<Rightarrow> (ur_list_state_t list \<Rightarrow> ur_list_state_t list) \<Rightarrow> protocol_state_t" where
  "lists_update st f = st\<lparr>runtime := (runtime st)\<lparr>lists := f (lists (runtime st))\<rparr>\<rparr>"

definition handle_create_screen ::
    "element_create_ctx_t \<Rightarrow> protocol_state_t \<Rightarrow> int \<times> protocol_state_t" where
  "handle_create_screen ctx st =
     (let (sid, st1) = add_basic_element st (c_parent_id ctx) ELEMENT_SCREEN (c_x ctx) (c_y ctx)
      in if sid = 0xFF then (err, st1)
         else
           (let st2 =
                  (if c_parent_id ctx = INVALID_ELEMENT_ID then
                     (let ov = (case extract_int_key (c_os ctx) (bytes_of ''ov'') of
                                  None \<Rightarrow> 0
                                | Some v \<Rightarrow> (if v < 0 then 0 else if v > 1 then 1 else v));
                          st1a = (if ov \<noteq> 0
                                  then snd (ui_attr_store_screen_role st1 sid (word_of_int ov))
                                  else st1)
                      in if ov = 0 then
                           (let st1b = st1a\<lparr>screen_count := screen_count st1a + 1\<rparr>
                            in if screen_count st1b = 1 then st1b\<lparr>active_screen := 0\<rparr>
                               else st1b)
                         else st1a)
                   else st1);
                (owner_text, st3) =
                  (if c_parent_id ctx \<noteq> INVALID_ELEMENT_ID then
                     (let parent_type = el_type (elements st2 ! unat (c_parent_id ctx))
                      in if parent_type = ELEMENT_TEXT then (c_parent_id ctx, st2)
                         else if parent_type = ELEMENT_LIST_VIEW then
                           (let (ls, rt1) = ur_list_get_or_add (runtime st2) (c_parent_id ctx)
                            in case ls of
                                 None \<Rightarrow> (INVALID_ELEMENT_ID, st2\<lparr>runtime := rt1\<rparr>)
                               | Some l \<Rightarrow> (l_last_text_child l, st2\<lparr>runtime := rt1\<rparr>))
                         else (INVALID_ELEMENT_ID, st2))
                   else (INVALID_ELEMENT_ID, st2))
            in (0, protocol_register_local_screen st3 sid owner_text)))"

definition handle_create_list ::
    "element_create_ctx_t \<Rightarrow> protocol_state_t \<Rightarrow> int \<times> protocol_state_t" where
  "handle_create_list ctx st =
     (let (lid, st1) = add_basic_element st (c_parent_id ctx) ELEMENT_LIST_VIEW
                         (c_x ctx) (c_y ctx)
      in if lid = 0xFF then (err, st1)
         else
           (let (ls, rt1) = ur_list_get_or_add (runtime st1) lid;
                st2 = st1\<lparr>runtime := rt1\<rparr>
            in case ls of
                 None \<Rightarrow> (0, st2)
               | Some l \<Rightarrow>
                   (let rows = (case extract_int_key (c_os ctx) (bytes_of ''r'') of
                                  None \<Rightarrow> None
                                | Some r \<Rightarrow> Some (if r < 1 then 1 else if r > 6 then 6 else r))
                    in (0, lists_update st2 (ur_list_modify
                          (\<lambda>n. n\<lparr>l_visible_rows :=
                                     (case rows of None \<Rightarrow> 4 | Some r \<Rightarrow> word_of_int r),
                                  l_last_text_child := INVALID_ELEMENT_ID\<rparr>) lid)))))"

text \<open>
  The text buffer \<^verbatim>\<open>tb\<close> of the text handlers: the extracted string, or the empty string
  when the extraction fails; and the capacity key \<open>c\<close> clamped to 0..20.
\<close>

definition text_key_tx :: "u8 list \<Rightarrow> u8 list" where
  "text_key_tx os =
     (case extract_string_key os (bytes_of ''tx'') 21 of
        (True, out) \<Rightarrow> c_str out
      | (False, out) \<Rightarrow> [])"

definition text_key_cap :: "u8 list \<Rightarrow> u8" where
  "text_key_cap os =
     (let cap = (case extract_int_key os (bytes_of ''c'') of None \<Rightarrow> 0 | Some v \<Rightarrow> v)
      in word_of_int (if cap < 0 then 0 else if cap > 20 then 20 else cap))"

definition set_last_text_child :: "protocol_state_t \<Rightarrow> u8 \<Rightarrow> u8 \<Rightarrow> protocol_state_t" where
  "set_last_text_child st list_id ident =
     (let (ls, rt1) = ur_list_get_or_add (runtime st) list_id;
          st1 = st\<lparr>runtime := rt1\<rparr>
      in case ls of
           None \<Rightarrow> st1
         | Some l \<Rightarrow> lists_update st1
                       (ur_list_modify (\<lambda>n. n\<lparr>l_last_text_child := ident\<rparr>) list_id))"

definition handle_create_text ::
    "element_create_ctx_t \<Rightarrow> protocol_state_t \<Rightarrow> int \<times> protocol_state_t" where
  "handle_create_text ctx st =
     (let is_list_item = (c_parent_id ctx \<noteq> INVALID_ELEMENT_ID
                          \<and> el_type (elements st ! unat (c_parent_id ctx)) = ELEMENT_LIST_VIEW)
      in if is_list_item then
           (let target_list = c_parent_id ctx;
                row_y = list_item_count st target_list * 8;
                (ident, st1) = add_basic_element st (c_parent_id ctx) ELEMENT_TEXT
                                 (c_x ctx) (uint row_y)
            in if ident = 0xFF then (err, st1)
               else
                 (let (rc, st2) = ui_attr_store_text_with_cap st1 ident
                                    (text_key_tx (c_os ctx)) (text_key_cap (c_os ctx))
                  in (0, set_last_text_child st2 target_list ident)))
         else
           (let (ident, st1) = add_basic_element st (c_parent_id ctx) ELEMENT_TEXT
                                 (c_x ctx) (c_y ctx)
            in if ident = 0xFF then (err, st1)
               else
                 (let (rc, st2) = ui_attr_store_text_with_cap st1 ident
                                    (text_key_tx (c_os ctx)) (text_key_cap (c_os ctx))
                  in if c_parent_id ctx \<noteq> INVALID_ELEMENT_ID
                        \<and> el_type (elements st2 ! unat (c_parent_id ctx)) = ELEMENT_LIST_VIEW
                     then (0, set_last_text_child st2 (c_parent_id ctx) ident)
                     else (0, st2))))"

definition handle_create_barrel ::
    "element_create_ctx_t \<Rightarrow> protocol_state_t \<Rightarrow> int \<times> protocol_state_t" where
  "handle_create_barrel ctx st =
     (let (ident, st1) = add_basic_element st (c_parent_id ctx) ELEMENT_BARREL
                           (c_x ctx) (c_y ctx)
      in if ident = 0xFF then (err, st1)
         else
           (let val = (case extract_int_key (c_os ctx) (bytes_of ''v'') of
                         None \<Rightarrow> 0 | Some v \<Rightarrow> v);
                val1 = (if val < 0 then 0 else val)
            in (0, numeric_store st1 ident val1 0)))"

definition handle_create_trigger ::
    "element_create_ctx_t \<Rightarrow> protocol_state_t \<Rightarrow> int \<times> protocol_state_t" where
  "handle_create_trigger ctx st =
     (let (ident, st1) = add_basic_element st (c_parent_id ctx) ELEMENT_TRIGGER
                           (c_x ctx) (c_y ctx)
      in if ident = 0xFF then (err, st1)
         else
           (let (ts, rt1) = ur_trigger_get_or_add (runtime st1) ident;
                st2 = st1\<lparr>runtime := rt1\<rparr>
            in case ts of
                 None \<Rightarrow> (err, st2)
               | Some t \<Rightarrow> (0, st2\<lparr>trigger_count := trigger_count st2 + 1\<rparr>)))"

definition handle_update_text ::
    "u8 \<Rightarrow> u8 list \<Rightarrow> protocol_state_t \<Rightarrow> int \<times> protocol_state_t" where
  "handle_update_text ident os st =
     (case extract_string_key os (bytes_of ''tx'') 21 of
        (True, out) \<Rightarrow> (0, snd (ui_attr_update_text st ident (c_str out)))
      | (False, out) \<Rightarrow> (0, st))"

definition handle_update_barrel ::
    "u8 \<Rightarrow> u8 list \<Rightarrow> protocol_state_t \<Rightarrow> int \<times> protocol_state_t" where
  "handle_update_barrel ident os st =
     (let v = (case extract_int_key os (bytes_of ''v'') of None \<Rightarrow> 0 | Some v \<Rightarrow> v)
      in (0, numeric_set_value st ident v))"

text \<open>The handler table \<^verbatim>\<open>k_element_handlers\<close> and its search.\<close>

record element_handler_t =
  h_type :: u8
  h_create :: "(element_create_ctx_t \<Rightarrow> protocol_state_t \<Rightarrow> int \<times> protocol_state_t) option"
  h_update :: "(u8 \<Rightarrow> u8 list \<Rightarrow> protocol_state_t \<Rightarrow> int \<times> protocol_state_t) option"

definition k_element_handlers :: "element_handler_t list" where
  "k_element_handlers =
     [\<lparr>h_type = ELEMENT_SCREEN, h_create = Some handle_create_screen, h_update = None\<rparr>,
      \<lparr>h_type = ELEMENT_LIST_VIEW, h_create = Some handle_create_list, h_update = None\<rparr>,
      \<lparr>h_type = ELEMENT_TEXT, h_create = Some handle_create_text,
         h_update = Some handle_update_text\<rparr>,
      \<lparr>h_type = ELEMENT_BARREL, h_create = Some handle_create_barrel,
         h_update = Some handle_update_barrel\<rparr>,
      \<lparr>h_type = ELEMENT_TRIGGER, h_create = Some handle_create_trigger, h_update = None\<rparr>]"

definition find_handler :: "u8 \<Rightarrow> element_handler_t option" where
  "find_handler ty = find (\<lambda>h. h_type h = ty) k_element_handlers"

definition handle_element_object :: "u8 list \<Rightarrow> protocol_state_t \<Rightarrow> int \<times> protocol_state_t" where
  "handle_element_object os st =
     (let type_buf = c_str (snd (extract_string_key os (bytes_of ''t'') 16))
      in if type_buf = bytes_of ''h'' then
           (case extract_int_key os (bytes_of ''n'') of
              None \<Rightarrow> (err, st)
            | Some n \<Rightarrow>
                if n \<le> 0 \<or> n > 255 then (err, st)
                else
                  (let (res, st1) = protocol_reserve_element_storage st (word_of_int n)
                   in if res \<noteq> RES_OK then (res, st1)
                      else (0, st1\<lparr>header_seen := 1\<rparr>)))
         else if element_capacity st = 0 then (RES_BAD_STATE, st)
         else
           (let tcode = map_type_key type_buf;
                parent = (case extract_int_key os (bytes_of ''p'') of
                            None \<Rightarrow> -1 | Some v \<Rightarrow> v);
                upd = extract_int_key os (bytes_of ''e'')
            in if (case upd of None \<Rightarrow> False
                              | Some upd_id \<Rightarrow> upd_id \<ge> 0 \<and> upd_id < uint (element_count st))
               then
                 (let upd_id = (word_of_int (the upd) :: u8);
                      uel = elements st ! unat upd_id
                  in if type_buf \<noteq> [] \<and> map_type_key type_buf \<noteq> el_type uel then (0, st)
                     else
                       (case find_handler (el_type uel) of
                          None \<Rightarrow> (0, st)
                        | Some handler \<Rightarrow>
                            (case h_update handler of
                               None \<Rightarrow> (0, st)
                             | Some update \<Rightarrow> update upd_id os st)))
               else
                 (let parent_id' = (if parent \<ge> 0 \<and> parent < uint (element_count st)
                                    then word_of_int parent else INVALID_ELEMENT_ID);
                      x = (case extract_int_key os (bytes_of ''x'') of
                             None \<Rightarrow> 0 | Some v \<Rightarrow> v);
                      y = (case extract_int_key os (bytes_of ''y'') of
                             None \<Rightarrow> 0 | Some v \<Rightarrow> v)
                  in case find_handler tcode of
                       None \<Rightarrow> (0, st)
                     | Some handler \<Rightarrow>
                         (case h_create handler of
                            None \<Rightarrow> (0, st)
                          | Some create \<Rightarrow>
                              create \<lparr>c_parent_id = parent_id', c_x = x, c_y = y,
                                       c_type_code = tcode, c_os = os\<rparr> st))))"

text \<open>
  \<^verbatim>\<open>parse_single_element_object(buf, len)\<close>: the two trimming loops leave the bytes from
  \<open>s\<close> to \<open>e\<close>; the object handler gets the span from \<open>s\<close> up to, not including, \<open>e\<close>.
\<close>

definition parse_single_element_object ::
    "u8 list \<Rightarrow> protocol_state_t \<Rightarrow> int \<times> protocol_state_t" where
  "parse_single_element_object buf st =
     (if length buf < 2 then (RES_BAD_LEN, st)
      else
        (let t = rev (dropWhile is_space_char (rev (dropWhile is_space_char buf)))
         in if length t \<le> 1 then (RES_PARSE_FAIL, st)
            else if hd t \<noteq> CH_LBRACE \<or> last t \<noteq> CH_RBRACE then (RES_PARSE_FAIL, st)
            else handle_element_object (butlast t) st))"

section \<open>Transport and commands (ui_protocol.c, spi_slave_dma.c)\<close>

abbreviation (input) SPI_CMD_PING :: u8 where "SPI_CMD_PING \<equiv> 0x00"
abbreviation (input) SPI_CMD_JSON :: u8 where "SPI_CMD_JSON \<equiv> 0x01"
abbreviation (input) SPI_CMD_JSON_ABORT :: u8 where "SPI_CMD_JSON_ABORT \<equiv> 0x03"
abbreviation (input) SPI_CMD_SET_ACTIVE_SCREEN :: u8 where "SPI_CMD_SET_ACTIVE_SCREEN \<equiv> 0x10"
abbreviation (input) SPI_CMD_GET_STATUS :: u8 where "SPI_CMD_GET_STATUS \<equiv> 0x20"
abbreviation (input) SPI_CMD_SCROLL_TO_SCREEN :: u8 where "SPI_CMD_SCROLL_TO_SCREEN \<equiv> 0x21"
abbreviation (input) SPI_CMD_GET_ELEMENT_STATE :: u8 where "SPI_CMD_GET_ELEMENT_STATE \<equiv> 0x22"
abbreviation (input) SPI_CMD_SHOW_OVERLAY :: u8 where "SPI_CMD_SHOW_OVERLAY \<equiv> 0x30"
abbreviation (input) SPI_CMD_INPUT_EVENT :: u8 where "SPI_CMD_INPUT_EVENT \<equiv> 0x41"
abbreviation (input) SPI_CMD_GOTO_STANDBY :: u8 where "SPI_CMD_GOTO_STANDBY \<equiv> 0x50"

abbreviation (input) SPI_BUFFER_SIZE :: nat where "SPI_BUFFER_SIZE \<equiv> 64"
abbreviation (input) SPI_TX_QUEUE_SIZE :: nat where "SPI_TX_QUEUE_SIZE \<equiv> 64"
abbreviation (input) RX_ENC_BUF_SIZE :: nat where "RX_ENC_BUF_SIZE \<equiv> 112"
abbreviation (input) SPI_RESP_SYNC0 :: u8 where "SPI_RESP_SYNC0 \<equiv> 0xA5"
abbreviation (input) SPI_RESP_SYNC1 :: u8 where "SPI_RESP_SYNC1 \<equiv> 0x5A"

abbreviation (input) RC_OK :: u8 where "RC_OK \<equiv> 0x00"
abbreviation (input) RC_BAD_LEN :: u8 where "RC_BAD_LEN \<equiv> 0x01"
abbreviation (input) RC_BAD_STATE :: u8 where "RC_BAD_STATE \<equiv> 0x02"
abbreviation (input) RC_UNKNOWN_ID :: u8 where "RC_UNKNOWN_ID \<equiv> 0x03"
abbreviation (input) RC_RANGE :: u8 where "RC_RANGE \<equiv> 0x04"
abbreviation (input) RC_INTERNAL :: u8 where "RC_INTERNAL \<equiv> 0x05"
abbreviation (input) RC_PARSE_FAIL :: u8 where "RC_PARSE_FAIL \<equiv> 0x0B"
abbreviation (input) RC_NO_SPACE :: u8 where "RC_NO_SPACE \<equiv> 0x0C"

abbreviation (input) PROTOCOL_RESP_SENT :: int where "PROTOCOL_RESP_SENT \<equiv> 0x7F"

abbreviation (input) JSON_FLAG_HEAD :: u8 where "JSON_FLAG_HEAD \<equiv> 0x01"
abbreviation (input) JSON_FLAG_COMMIT :: u8 where "JSON_FLAG_COMMIT \<equiv> 0x02"
abbreviation (input) STATUS_FLAG_INITIALIZED :: u8 where "STATUS_FLAG_INITIALIZED \<equiv> 0x01"
abbreviation (input) STATUS_FLAG_DIRTY :: u8 where "STATUS_FLAG_DIRTY \<equiv> 0x02"
abbreviation (input) STATUS_FLAG_OVERLAY :: u8 where "STATUS_FLAG_OVERLAY \<equiv> 0x04"

datatype rx_state_t =
    RX_STATE_WAIT_SYNC0
  | RX_STATE_WAIT_SYNC1
  | RX_STATE_WAIT_LEN
  | RX_STATE_COLLECT_COBS

text \<open>
  The slave: the protocol state and the file-scope variables of \<^verbatim>\<open>ui_protocol.c\<close>.
  \<open>g_rx_enc_buf\<close> holds the \<open>g_rx_enc_len\<close> bytes collected so far, and \<open>g_tx_buf\<close> the
  \<open>g_tx_len\<close> bytes of the last frame built. The TX DMA channel of \<^verbatim>\<open>spi_slave_dma.c\<close> is
  its remaining count \<open>dma_cntr\<close> (the register \<^verbatim>\<open>CNTR\<close>) and \<open>dma_frames\<close>, the frames
  handed to \<^verbatim>\<open>spi_slave_tx_dma_start\<close>, oldest first: the bytes the host reads. The calls
  of \<^verbatim>\<open>debug_log_event\<close> in this file do not change the state and are left out.
\<close>

record slave_t =
  g_protocol_state :: protocol_state_t
  g_render_requested :: u8
  g_request_standby :: u8
  g_rx_enc_buf :: "u8 list"
  g_rx_frame_len :: u8
  g_rx_frame_ready :: u8
  g_rx_state :: rx_state_t
  g_rx_overrun :: u8
  g_tx_buf :: "u8 list"
  g_tx_queue :: "u8 list"
  g_tx_queue_pending :: u8
  dma_cntr :: nat
  dma_frames :: "u8 list list"

definition slave_init :: slave_t where
  "slave_init = \<lparr>g_protocol_state = protocol_init, g_render_requested = 0,
     g_request_standby = 0, g_rx_enc_buf = [], g_rx_frame_len = 0, g_rx_frame_ready = 0,
     g_rx_state = RX_STATE_WAIT_SYNC0, g_rx_overrun = 0, g_tx_buf = [], g_tx_queue = [],
     g_tx_queue_pending = 0, dma_cntr = 0, dma_frames = []\<rparr>"

definition spi_slave_tx_dma_is_complete :: "slave_t \<Rightarrow> bool" where
  "spi_slave_tx_dma_is_complete sl = (dma_cntr sl = 0)"

text \<open>
  \<^verbatim>\<open>spi_slave_tx_dma_start\<close> first waits for the running transfer; both callers call it
  only when the channel is complete, so the wait returns at once.
\<close>

definition spi_slave_tx_dma_start :: "slave_t \<Rightarrow> u8 list \<Rightarrow> slave_t" where
  "spi_slave_tx_dma_start sl frame =
     sl\<lparr>dma_cntr := length frame, dma_frames := dma_frames sl @ [frame]\<rparr>"

definition protocol_tx_process_queue :: "slave_t \<Rightarrow> slave_t" where
  "protocol_tx_process_queue sl =
     (if g_tx_queue_pending sl = 0 then sl
      else if \<not> spi_slave_tx_dma_is_complete sl then sl
      else (spi_slave_tx_dma_start sl (g_tx_queue sl))
             \<lparr>g_tx_queue_pending := 0, g_tx_queue := []\<rparr>)"

definition protocol_map_result_to_rc :: "int \<Rightarrow> u8" where
  "protocol_map_result_to_rc r =
     (if r = RES_OK then RC_OK
      else if r = PROTOCOL_RESP_SENT then RC_OK
      else if r = RES_BAD_LEN then RC_BAD_LEN
      else if r = RES_BAD_STATE then RC_BAD_STATE
      else if r = RES_UNKNOWN_ID then RC_UNKNOWN_ID
      else if r = RES_RANGE then RC_RANGE
      else if r = RES_INTERNAL then RC_INTERNAL
      else if r = RES_NO_SPACE then RC_NO_SPACE
      else if r = RES_PARSE_FAIL then RC_PARSE_FAIL
      else RC_INTERNAL)"

text \<open>
  \<^verbatim>\<open>protocol_send_response(cmd, payload, len)\<close>: the command id is not part of the
  frame. The encoder writes behind the three header bytes into the 61 bytes left.
\<close>

definition protocol_send_response :: "slave_t \<Rightarrow> u8 \<Rightarrow> u8 list \<Rightarrow> int \<times> slave_t" where
  "protocol_send_response sl cmd payload =
     (case cobs_encode payload (SPI_BUFFER_SIZE - 3) of
        None \<Rightarrow> (RES_INTERNAL, sl\<lparr>g_tx_buf := [SPI_RESP_SYNC0, SPI_RESP_SYNC1, 0]\<rparr>)
      | Some enc \<Rightarrow>
          (let sl1 = sl\<lparr>g_tx_buf := [SPI_RESP_SYNC0, SPI_RESP_SYNC1, of_nat (length enc)] @ enc\<rparr>
           in if g_tx_queue_pending sl1 \<noteq> 0 then (RES_BAD_STATE, sl1)
              else if \<not> spi_slave_tx_dma_is_complete sl1 then
                (if length (g_tx_buf sl1) > SPI_TX_QUEUE_SIZE then (RES_BAD_LEN, sl1)
                 else (RES_OK, sl1\<lparr>g_tx_queue := g_tx_buf sl1, g_tx_queue_pending := 1\<rparr>))
              else (RES_OK, spi_slave_tx_dma_start sl1 (g_tx_buf sl1))))"

definition ps_update :: "slave_t \<Rightarrow> (protocol_state_t \<Rightarrow> protocol_state_t) \<Rightarrow> slave_t" where
  "ps_update sl f = sl\<lparr>g_protocol_state := f (g_protocol_state sl)\<rparr>"

definition cmd_ping :: "slave_t \<Rightarrow> u8 list \<Rightarrow> int \<times> slave_t" where
  "cmd_ping sl p =
     (if length p \<noteq> 0 then (RES_BAD_LEN, sl)
      else
        (let st = g_protocol_state sl;
             out = [RC_OK, protocol_version st,
                    ucast (capabilities st AND 0xFF),
                    ucast (drop_bit 8 (capabilities st) AND 0xFF)]
         in (PROTOCOL_RESP_SENT, snd (protocol_send_response sl SPI_CMD_PING out))))"

definition protocol_element_changed :: "protocol_state_t \<Rightarrow> u8 \<Rightarrow> protocol_state_t" where
  "protocol_element_changed st eid =
     (if eid \<ge> element_count st then st
      else st\<lparr>status_dirty := 1, status_dirty_id := eid\<rparr>)"

definition status_payload :: "protocol_state_t \<Rightarrow> u8 list" where
  "status_payload st =
     (let flags0 = (if initialized st \<noteq> 0 then STATUS_FLAG_INITIALIZED else 0);
          flags1 = (if status_dirty st \<noteq> 0 then flags0 OR STATUS_FLAG_DIRTY else flags0);
          flags = (if active_overlay_screen_id (overlay st) \<noteq> 0xFF
                   then flags1 OR STATUS_FLAG_OVERLAY else flags1)
      in [RC_OK, flags, element_count st, screen_count st, active_screen st,
          protocol_version st,
          (if status_dirty st \<noteq> 0 then status_dirty_id st else INVALID_ELEMENT_ID),
          0, 0, 0])"

definition cmd_get_status :: "slave_t \<Rightarrow> u8 list \<Rightarrow> int \<times> slave_t" where
  "cmd_get_status sl p =
     (let out = status_payload (g_protocol_state sl);
          sl1 = snd (protocol_send_response sl SPI_CMD_GET_STATUS out)
      in (PROTOCOL_RESP_SENT,
          ps_update sl1 (\<lambda>st. st\<lparr>status_dirty := 0, status_dirty_id := INVALID_ELEMENT_ID\<rparr>)))"

definition protocol_apply_json_object_internal ::
    "slave_t \<Rightarrow> u8 list \<Rightarrow> u8 \<Rightarrow> int \<times> slave_t" where
  "protocol_apply_json_object_internal sl buf flags =
     (let sl1 = (if flags AND JSON_FLAG_HEAD \<noteq> 0
                 then sl\<lparr>g_protocol_state := protocol_reset_state\<rparr> else sl);
          (rc, st2) = (if length buf > 0
                       then parse_single_element_object buf (g_protocol_state sl1)
                       else (0, g_protocol_state sl1));
          sl2 = sl1\<lparr>g_protocol_state := st2\<rparr>
      in if flags AND JSON_FLAG_COMMIT \<noteq> 0 then
           (if element_capacity st2 = 0
            then ((if rc = RES_OK then RES_BAD_STATE else rc), sl2)
            else (rc, sl2\<lparr>g_protocol_state := st2\<lparr>initialized := 1\<rparr>,
                          g_render_requested := 1\<rparr>))
         else (rc, sl2))"

definition cmd_json :: "slave_t \<Rightarrow> u8 list \<Rightarrow> int \<times> slave_t" where
  "cmd_json sl p =
     (case p of
        [] \<Rightarrow> (RES_BAD_LEN, sl)
      | flags # json \<Rightarrow> protocol_apply_json_object_internal sl json flags)"

definition cmd_json_abort :: "slave_t \<Rightarrow> u8 list \<Rightarrow> int \<times> slave_t" where
  "cmd_json_abort sl p = (0, sl)"

definition cmd_set_active_screen :: "slave_t \<Rightarrow> u8 list \<Rightarrow> int \<times> slave_t" where
  "cmd_set_active_screen sl p =
     (if length p \<noteq> 1 then (RES_BAD_LEN, sl)
      else
        (let sid = hd p
         in if sid \<ge> screen_count (g_protocol_state sl) then (RES_RANGE, sl)
            else (RES_OK, ps_update sl (\<lambda>st.
                   protocol_focus_first_on_screen
                     (st\<lparr>active_screen := sid, scroll_x := ucast sid * 128,
                         screen_anim := \<lparr>sa_active = 0, sa_from_screen = sid,
                            sa_to_screen = sid, sa_offset_px = 0, sa_dir = 0\<rparr>\<rparr>) sid))))"

definition cmd_scroll_to_screen :: "slave_t \<Rightarrow> u8 list \<Rightarrow> int \<times> slave_t" where
  "cmd_scroll_to_screen sl p =
     (let st = g_protocol_state sl
      in if length p = 1 then
           (if sa_active (screen_anim st) \<noteq> 0 then (RES_OK, sl)
            else
              (let sid = p ! 0
               in if sid \<ge> screen_count st then (RES_RANGE, sl)
                  else (RES_OK, ps_update sl
                         (\<lambda>st. st\<lparr>active_screen := sid, scroll_x := ucast sid * 128\<rparr>))))
         else if length p = 3 then
           (if sa_active (screen_anim st) \<noteq> 0 then (RES_OK, sl)
            else
              (let off = (ucast (p ! 0) OR push_bit 8 (ucast (p ! 1)) :: 16 word);
                   sid = p ! 2
               in if sid \<ge> screen_count st then (RES_RANGE, sl)
                  else
                    (let max_off = (ucast (screen_count st - 1) * 128 :: 16 word);
                         off1 = (if sint off < 0 then 0 else off);
                         off2 = (if sint off1 > sint max_off then max_off else off1)
                     in (RES_OK, ps_update sl
                          (\<lambda>st. st\<lparr>active_screen := sid, scroll_x := off2\<rparr>)))))
         else (RES_BAD_LEN, sl))"

definition cmd_show_overlay :: "slave_t \<Rightarrow> u8 list \<Rightarrow> int \<times> slave_t" where
  "cmd_show_overlay sl p =
     (if length p < 1 then (RES_BAD_LEN, sl)
      else
        (let st = g_protocol_state sl;
             sid = p ! 0;
             dur = (if length p \<ge> 3 then
                      (let d = (ucast (p ! 1) OR push_bit 8 (ucast (p ! 2)) :: u16)
                       in if d = 0 then 1 else d)
                    else 1200);
             mask = (if length p \<ge> 4 then (if p ! 3 AND 0x01 \<noteq> 0 then 1 else 0) else 0)
         in if sid \<ge> element_count st then (RES_UNKNOWN_ID, sl)
            else if el_type (elements st ! unat sid) \<noteq> ELEMENT_SCREEN then (RES_BAD_STATE, sl)
            else if protocol_screen_role st sid \<noteq> OVERLAY_FULL then (RES_BAD_STATE, sl)
            else (RES_OK,
                  (ps_update sl (\<lambda>st. protocol_clear_focus
                     (st\<lparr>overlay := \<lparr>active_overlay_screen_id = sid, remaining_ms = dur,
                           mask_input = mask, prev_focus = focused_element st\<rparr>\<rparr>)))
                    \<lparr>g_render_requested := 1\<rparr>)))"

definition cmd_goto_standby :: "slave_t \<Rightarrow> u8 list \<Rightarrow> int \<times> slave_t" where
  "cmd_goto_standby sl p =
     (PROTOCOL_RESP_SENT, if length p = 0 then sl\<lparr>g_request_standby := 1\<rparr> else sl)"

text \<open>
  The dispatcher. The handlers of \<^verbatim>\<open>SPI_CMD_GET_ELEMENT_STATE\<close> and \<^verbatim>\<open>SPI_CMD_INPUT_EVENT\<close>
  (the button state machine of \<^verbatim>\<open>ui_input.c\<close>) are outside this development: for these
  two commands the result is \<open>None\<close>.
\<close>

definition handle_binary_command :: "slave_t \<Rightarrow> u8 \<Rightarrow> u8 list \<Rightarrow> (int \<times> slave_t) option" where
  "handle_binary_command sl cmd payload =
     (if cmd = SPI_CMD_PING then Some (cmd_ping sl payload)
      else if cmd = SPI_CMD_JSON then Some (cmd_json sl payload)
      else if cmd = SPI_CMD_JSON_ABORT then Some (cmd_json_abort sl payload)
      else if cmd = SPI_CMD_SET_ACTIVE_SCREEN then Some (cmd_set_active_screen sl payload)
      else if cmd = SPI_CMD_GET_STATUS then Some (cmd_get_status sl payload)
      else if cmd = SPI_CMD_SCROLL_TO_SCREEN then Some (cmd_scroll_to_screen sl payload)
      else if cmd = SPI_CMD_GET_ELEMENT_STATE then None
      else if cmd = SPI_CMD_SHOW_OVERLAY then Some (cmd_show_overlay sl payload)
      else if cmd = SPI_CMD_INPUT_EVENT then None
      else if cmd = SPI_CMD_GOTO_STANDBY then Some (cmd_goto_standby sl payload)
      else Some (RES_BAD_LEN, sl))"

definition spi_rx_reset :: "slave_t \<Rightarrow> slave_t" where
  "spi_rx_reset sl = sl\<lparr>g_rx_enc_buf := [], g_rx_frame_len := 0,
                          g_rx_state := RX_STATE_WAIT_SYNC0\<rparr>"

text \<open>
  \<^verbatim>\<open>ui_spi_rx_irq\<close> reads the overrun flag of the status register and the data register:
  they are the arguments \<open>ovr\<close> and \<open>b\<close>.
\<close>

definition ui_spi_rx_irq :: "slave_t \<Rightarrow> bool \<Rightarrow> u8 \<Rightarrow> slave_t" where
  "ui_spi_rx_irq sl ovr b =
     (if ovr then sl\<lparr>g_rx_overrun := 1\<rparr>
      else if g_rx_frame_ready sl \<noteq> 0 then sl
      else
        (case g_rx_state sl of
           RX_STATE_WAIT_SYNC0 \<Rightarrow>
             (if b = SPI_RESP_SYNC0 then sl\<lparr>g_rx_state := RX_STATE_WAIT_SYNC1\<rparr> else sl)
         | RX_STATE_WAIT_SYNC1 \<Rightarrow>
             (if b = SPI_RESP_SYNC1 then sl\<lparr>g_rx_state := RX_STATE_WAIT_LEN\<rparr>
              else sl\<lparr>g_rx_state := RX_STATE_WAIT_SYNC0\<rparr>)
         | RX_STATE_WAIT_LEN \<Rightarrow>
             (let sl1 = sl\<lparr>g_rx_frame_len := b, g_rx_enc_buf := []\<rparr>
              in if b > 0 \<and> unat b \<le> RX_ENC_BUF_SIZE
                 then sl1\<lparr>g_rx_state := RX_STATE_COLLECT_COBS\<rparr>
                 else sl1\<lparr>g_rx_state := RX_STATE_WAIT_SYNC0\<rparr>)
         | RX_STATE_COLLECT_COBS \<Rightarrow>
             (if length (g_rx_enc_buf sl) < RX_ENC_BUF_SIZE then
                (let sl1 = sl\<lparr>g_rx_enc_buf := g_rx_enc_buf sl @ [b]\<rparr>
                 in if length (g_rx_enc_buf sl1) \<ge> unat (g_rx_frame_len sl1)
                    then sl1\<lparr>g_rx_frame_ready := 1, g_rx_state := RX_STATE_WAIT_SYNC0\<rparr>
                    else sl1)
              else sl\<lparr>g_rx_state := RX_STATE_WAIT_SYNC0, g_rx_overrun := 1\<rparr>)))"

definition protocol_service_deferred_ops :: "slave_t \<Rightarrow> slave_t option" where
  "protocol_service_deferred_ops sl =
     (let sl1 = (if g_rx_overrun sl \<noteq> 0
                 then (spi_rx_reset sl)\<lparr>g_rx_frame_ready := 0, g_rx_overrun := 0\<rparr>
                 else sl);
          sl2 = protocol_tx_process_queue sl1
      in if g_rx_frame_ready sl2 \<noteq> 0 then
           (let finish = (\<lambda>s. protocol_tx_process_queue
                                 (spi_rx_reset (s\<lparr>g_rx_frame_ready := 0\<rparr>)))
            in case cobs_decode (g_rx_enc_buf sl2) SPI_BUFFER_SIZE of
                 None \<Rightarrow> Some (finish sl2)
               | Some [] \<Rightarrow> Some (finish sl2)
               | Some (command # payload) \<Rightarrow>
                   (case handle_binary_command sl2 command payload of
                      None \<Rightarrow> None
                    | Some (cmd_result, sl3) \<Rightarrow>
                        if cmd_result \<noteq> PROTOCOL_RESP_SENT then
                          Some (finish (snd (protocol_send_response sl3 command
                                  [protocol_map_result_to_rc cmd_result])))
                        else Some (finish sl3)))
         else Some (protocol_tx_process_queue sl2))"

text \<open>Receiving a sequence of bytes without overrun, one interrupt per byte.\<close>

fun rx_bytes :: "slave_t \<Rightarrow> u8 list \<Rightarrow> slave_t" where
  "rx_bytes sl [] = sl"
| "rx_bytes sl (b # bs) = rx_bytes (ui_spi_rx_irq sl False b) bs"

text \<open>Provisioning: a sequence of \<open>json\<close> commands, each a flags byte followed by one
  descriptor object.\<close>

fun provision :: "slave_t \<Rightarrow> (u8 \<times> string) list \<Rightarrow> slave_t" where
  "provision sl [] = sl"
| "provision sl ((flags, d) # ds) = provision (snd (cmd_json sl (flags # bytes_of d))) ds"


section \<open>The ping exchange\<close>

text \<open>Claim C2, as stated: from a freshly initialised slave the request frame
  \<open>A5 5A 02 02 00\<close> is answered by the frame \<open>A5 5A 05 05 00 01 00 00\<close>. The frame the
  code queues is a different one: the byte-stuffed body never contains a zero byte.\<close>

theorem ping_frame_counterexample:
  "map_option dma_frames
     (protocol_service_deferred_ops (rx_bytes slave_init [0xA5, 0x5A, 0x02, 0x02, 0x00]))
   \<noteq> Some [[0xA5, 0x5A, 0x05, 0x05, 0x00, 0x01, 0x00, 0x00]]"
  by code_simp

text \<open>Claim C2, amended: the request frame \<open>A5 5A 02 02 00\<close> is answered by exactly one
  frame, \<open>A5 5A 05 01 02 01 01 01\<close>, whose 5-byte body is the byte-stuffed encoding of
  \<open>00 01 00 00\<close> (rc OK, version 1, capabilities 0) and decodes to it.\<close>

theorem ping_frame:
  "map_option dma_frames
     (protocol_service_deferred_ops (rx_bytes slave_init [0xA5, 0x5A, 0x02, 0x02, 0x00]))
   = Some [[0xA5, 0x5A, 0x05, 0x01, 0x02, 0x01, 0x01, 0x01]]
   \<and> cobs_decode [0x01, 0x02, 0x01, 0x01, 0x01] SPI_BUFFER_SIZE = Some [0x00, 0x01, 0x00, 0x00]
   \<and> cobs_encode [0x00, 0x01, 0x00, 0x00] (SPI_BUFFER_SIZE - 3)
       = Some [0x01, 0x02, 0x01, 0x01, 0x01]"
  by code_simp


section \<open>The status-dirty id\<close>

lemma changed_count [simp]:
  "element_count (protocol_element_changed st e) = element_count st"
  by (simp add: protocol_element_changed_def)

lemma changed_fold_count [simp]:
  "element_count (foldl protocol_element_changed st eids) = element_count st"
  by (induction eids arbitrary: st) simp_all

lemma changed_step:
  "status_dirty_id (protocol_element_changed s e)
     = (if e < element_count s then e else status_dirty_id s)"
  "status_dirty (protocol_element_changed s e)
     = (if e < element_count s then 1 else status_dirty s)"
  by (auto simp: protocol_element_changed_def)

lemma changed_fold_dirty:
  "status_dirty_id (foldl protocol_element_changed st eids)
     = (if filter (\<lambda>e. e < element_count st) eids = [] then status_dirty_id st
        else last (filter (\<lambda>e. e < element_count st) eids))
   \<and> status_dirty (foldl protocol_element_changed st eids)
     = (if filter (\<lambda>e. e < element_count st) eids = [] then status_dirty st else 1)"
proof (induction eids rule: rev_induct)
  case Nil
  show ?case by simp
next
  case (snoc e eids)
  then show ?case
    by (simp add: changed_step)
qed

lemma status_payload_dirty_id:
  "status_payload st ! 6 = (if status_dirty st \<noteq> 0 then status_dirty_id st else INVALID_ELEMENT_ID)"
  by (simp add: status_payload_def Let_def)

lemma status_payload_dirty_flag:
  "(status_payload st ! 1 AND STATUS_FLAG_DIRTY \<noteq> 0) = (status_dirty st \<noteq> 0)"
  by (simp add: status_payload_def Let_def)

lemma status_payload_length: "length (status_payload st) = 10"
  by (simp add: status_payload_def Let_def)

lemma get_status_clears:
  "status_dirty (g_protocol_state (snd (cmd_get_status sl p))) = 0
   \<and> status_dirty_id (g_protocol_state (snd (cmd_get_status sl p))) = INVALID_ELEMENT_ID
   \<and> element_count (g_protocol_state (snd (cmd_get_status sl p)))
       = element_count (g_protocol_state sl)
   \<and> fst (cmd_get_status sl p) = PROTOCOL_RESP_SENT"
  by (simp add: cmd_get_status_def ps_update_def protocol_send_response_def Let_def
        spi_slave_tx_dma_start_def split: option.splits)

lemma send_response_queue_free:
  assumes "g_tx_queue_pending sl = 0" and "length payload \<le> 60"
  shows "\<exists>enc. cobs_decode enc SPI_BUFFER_SIZE = Some payload
           \<and> (dma_cntr sl = 0 \<longrightarrow>
                 dma_frames (snd (protocol_send_response sl cmd payload))
                   = dma_frames sl @ [[SPI_RESP_SYNC0, SPI_RESP_SYNC1, of_nat (length enc)] @ enc])
           \<and> (dma_cntr sl \<noteq> 0 \<longrightarrow>
                 g_tx_queue (snd (protocol_send_response sl cmd payload))
                   = [SPI_RESP_SYNC0, SPI_RESP_SYNC1, of_nat (length enc)] @ enc
                 \<and> g_tx_queue_pending (snd (protocol_send_response sl cmd payload)) = 1
                 \<and> dma_frames (snd (protocol_send_response sl cmd payload)) = dma_frames sl)"
proof -
  have "length payload < 254" "length payload < SPI_BUFFER_SIZE - 3"
    "length payload \<le> SPI_BUFFER_SIZE"
    using assms(2) by simp_all
  from cobs_roundtrip_general [OF this] obtain enc where
    e: "cobs_encode payload (SPI_BUFFER_SIZE - 3) = Some enc"
    and l: "length enc = length payload + 1"
    and d: "cobs_decode enc SPI_BUFFER_SIZE = Some payload"
    by blast
  have "length enc \<le> 61"
    using l assms(2) by simp
  then show ?thesis
    using assms(1) e d
    by (auto simp: protocol_send_response_def Let_def spi_slave_tx_dma_is_complete_def
          spi_slave_tx_dma_start_def)
qed

text \<open>A provisioned tree of two elements in which element 0 has been changed.\<close>

definition scenario_s2 :: "(u8 \<times> string) list" where
  \<open>scenario_s2 =
    [(JSON_FLAG_HEAD, ''{"t":"h","n":2}''),
     (0, ''{"t":"s"}''),
     (JSON_FLAG_COMMIT, ''{"t":"t","p":0,"x":0,"y":0,"tx":"Hi"}'')]\<close>

definition status_example :: slave_t where
  "status_example =
     ps_update (provision slave_init scenario_s2) (\<lambda>st. protocol_element_changed st 0)"

text \<open>The same state while the answer to a ping is being transmitted, and while a second
  answer waits in the one-slot transmit queue.\<close>

definition status_sending :: slave_t where
  "status_sending = snd (cmd_ping status_example [])"

definition status_queued :: slave_t where
  "status_queued = snd (cmd_ping status_sending [])"

text \<open>Claim C8, as stated: a \<open>get_status\<close> read reports the most recent dirty id and clears
  it. With the transmit queue taken the answer is dropped: nothing is sent or queued, yet the
  flag and the id are cleared, so the change of element 0 is never reported.\<close>

theorem status_dirty_counterexample:
  "status_dirty (g_protocol_state status_queued) = 1
   \<and> status_dirty_id (g_protocol_state status_queued) = 0
   \<and> g_tx_queue_pending status_queued = 1
   \<and> dma_frames (snd (cmd_get_status status_queued [])) = dma_frames status_queued
   \<and> g_tx_queue (snd (cmd_get_status status_queued [])) = g_tx_queue status_queued
   \<and> g_tx_queue_pending (snd (cmd_get_status status_queued [])) = 1
   \<and> status_dirty (g_protocol_state (snd (cmd_get_status status_queued []))) = 0
   \<and> status_dirty_id (g_protocol_state (snd (cmd_get_status status_queued []))) = 0xFF
   \<and> status_payload (g_protocol_state (snd (cmd_get_status status_queued []))) ! 6 = 0xFF"
  by code_simp

text \<open>Claim C8, amended: one dirty id is kept, the last valid change wins. After a
  \<open>get_status\<close> read the flag is clear and the id is \<open>0xFF\<close>; after any sequence of element
  changes following the read, the stored id and the id byte of the next status payload are the
  last changed id that names an existing element (\<open>0xFF\<close> and a clear dirty bit when there is
  none); a single change of an existing element overwrites the stored id; and a read that
  finds the transmit queue free reports the status payload of the state before the read: the
  frame is handed to the transmitter when it is idle, and otherwise queued and transmitted
  when the running transfer completes.\<close>

theorem status_dirty_last_writer_wins:
  "(let after_read = g_protocol_state (snd (cmd_get_status sl p));
        changed = foldl protocol_element_changed after_read eids;
        valid = filter (\<lambda>e. e < element_count after_read) eids
    in status_dirty after_read = 0
       \<and> status_dirty_id after_read = INVALID_ELEMENT_ID
       \<and> status_dirty_id changed = (if valid = [] then INVALID_ELEMENT_ID else last valid)
       \<and> status_payload changed ! 6 = (if valid = [] then INVALID_ELEMENT_ID else last valid)
       \<and> (status_payload changed ! 1 AND STATUS_FLAG_DIRTY \<noteq> 0) = (valid \<noteq> []))
   \<and> (e < element_count st \<longrightarrow>
         status_dirty_id (protocol_element_changed st e) = e
         \<and> status_dirty (protocol_element_changed st e) = 1)
   \<and> fst (cmd_get_status sl p) = PROTOCOL_RESP_SENT
   \<and> (g_tx_queue_pending sl = 0 \<longrightarrow>
        (\<exists>enc. cobs_decode enc SPI_BUFFER_SIZE = Some (status_payload (g_protocol_state sl))
           \<and> (dma_cntr sl = 0 \<longrightarrow>
                 dma_frames (snd (cmd_get_status sl p))
                   = dma_frames sl @ [[SPI_RESP_SYNC0, SPI_RESP_SYNC1, of_nat (length enc)] @ enc])
           \<and> (dma_cntr sl \<noteq> 0 \<longrightarrow>
                 g_tx_queue (snd (cmd_get_status sl p))
                   = [SPI_RESP_SYNC0, SPI_RESP_SYNC1, of_nat (length enc)] @ enc
                 \<and> g_tx_queue_pending (snd (cmd_get_status sl p)) = 1
                 \<and> dma_frames (protocol_tx_process_queue
                                 ((snd (cmd_get_status sl p))\<lparr>dma_cntr := 0\<rparr>))
                     = dma_frames sl
                       @ [[SPI_RESP_SYNC0, SPI_RESP_SYNC1, of_nat (length enc)] @ enc])))"
proof -
  let ?ar = "g_protocol_state (snd (cmd_get_status sl p))"
  let ?ch = "foldl protocol_element_changed ?ar eids"
  let ?valid = "filter (\<lambda>e. e < element_count ?ar) eids"
  have c: "status_dirty ?ar = 0" "status_dirty_id ?ar = INVALID_ELEMENT_ID"
          "fst (cmd_get_status sl p) = PROTOCOL_RESP_SENT"
    using get_status_clears [of sl p] by simp_all
  have d: "status_dirty_id ?ch = (if ?valid = [] then INVALID_ELEMENT_ID else last ?valid)"
          "status_dirty ?ch = (if ?valid = [] then 0 else 1)"
    using changed_fold_dirty [of ?ar eids] c by simp_all
  have p6: "status_payload ?ch ! 6 = (if ?valid = [] then INVALID_ELEMENT_ID else last ?valid)"
    unfolding status_payload_dirty_id d by simp
  have p1: "(status_payload ?ch ! 1 AND STATUS_FLAG_DIRTY \<noteq> 0) = (?valid \<noteq> [])"
    unfolding status_payload_dirty_flag d by simp
  have s: "e < element_count st \<longrightarrow>
         status_dirty_id (protocol_element_changed st e) = e
         \<and> status_dirty (protocol_element_changed st e) = 1"
    by (simp add: changed_step)
  let ?sent = "snd (protocol_send_response sl SPI_CMD_GET_STATUS
                      (status_payload (g_protocol_state sl)))"
  have g: "dma_frames (snd (cmd_get_status sl p)) = dma_frames ?sent"
    "g_tx_queue (snd (cmd_get_status sl p)) = g_tx_queue ?sent"
    "g_tx_queue_pending (snd (cmd_get_status sl p)) = g_tx_queue_pending ?sent"
    by (simp_all add: cmd_get_status_def ps_update_def Let_def)
  have q: "\<And>F. g_tx_queue (snd (cmd_get_status sl p)) = F
             \<Longrightarrow> g_tx_queue_pending (snd (cmd_get_status sl p)) = 1
             \<Longrightarrow> dma_frames (snd (cmd_get_status sl p)) = dma_frames sl
             \<Longrightarrow> dma_frames (protocol_tx_process_queue
                              ((snd (cmd_get_status sl p))\<lparr>dma_cntr := 0\<rparr>))
                 = dma_frames sl @ [F]"
    by (simp add: protocol_tx_process_queue_def spi_slave_tx_dma_is_complete_def
          spi_slave_tx_dma_start_def)
  have f: "g_tx_queue_pending sl = 0 \<longrightarrow>
        (\<exists>enc. cobs_decode enc SPI_BUFFER_SIZE = Some (status_payload (g_protocol_state sl))
           \<and> (dma_cntr sl = 0 \<longrightarrow>
                 dma_frames (snd (cmd_get_status sl p))
                   = dma_frames sl @ [[SPI_RESP_SYNC0, SPI_RESP_SYNC1, of_nat (length enc)] @ enc])
           \<and> (dma_cntr sl \<noteq> 0 \<longrightarrow>
                 g_tx_queue (snd (cmd_get_status sl p))
                   = [SPI_RESP_SYNC0, SPI_RESP_SYNC1, of_nat (length enc)] @ enc
                 \<and> g_tx_queue_pending (snd (cmd_get_status sl p)) = 1
                 \<and> dma_frames (protocol_tx_process_queue
                                 ((snd (cmd_get_status sl p))\<lparr>dma_cntr := 0\<rparr>))
                     = dma_frames sl
                       @ [[SPI_RESP_SYNC0, SPI_RESP_SYNC1, of_nat (length enc)] @ enc]))"
  proof
    assume a: "g_tx_queue_pending sl = 0"
    have "length (status_payload (g_protocol_state sl)) \<le> 60"
      by (simp add: status_payload_length)
    from send_response_queue_free [OF a this, of SPI_CMD_GET_STATUS] obtain enc where
      e: "cobs_decode enc SPI_BUFFER_SIZE = Some (status_payload (g_protocol_state sl))"
      and i: "dma_cntr sl = 0 \<longrightarrow>
              dma_frames ?sent
                = dma_frames sl @ [[SPI_RESP_SYNC0, SPI_RESP_SYNC1, of_nat (length enc)] @ enc]"
      and b: "dma_cntr sl \<noteq> 0 \<longrightarrow>
              g_tx_queue ?sent = [SPI_RESP_SYNC0, SPI_RESP_SYNC1, of_nat (length enc)] @ enc
              \<and> g_tx_queue_pending ?sent = 1 \<and> dma_frames ?sent = dma_frames sl"
      by (elim exE conjE) simp
    show "\<exists>enc. cobs_decode enc SPI_BUFFER_SIZE = Some (status_payload (g_protocol_state sl))
           \<and> (dma_cntr sl = 0 \<longrightarrow>
                 dma_frames (snd (cmd_get_status sl p))
                   = dma_frames sl @ [[SPI_RESP_SYNC0, SPI_RESP_SYNC1, of_nat (length enc)] @ enc])
           \<and> (dma_cntr sl \<noteq> 0 \<longrightarrow>
                 g_tx_queue (snd (cmd_get_status sl p))
                   = [SPI_RESP_SYNC0, SPI_RESP_SYNC1, of_nat (length enc)] @ enc
                 \<and> g_tx_queue_pending (snd (cmd_get_status sl p)) = 1
                 \<and> dma_frames (protocol_tx_process_queue
                                 ((snd (cmd_get_status sl p))\<lparr>dma_cntr := 0\<rparr>))
                     = dma_frames sl
                       @ [[SPI_RESP_SYNC0, SPI_RESP_SYNC1, of_nat (length enc)] @ enc])"
    proof (intro exI [of _ enc] conjI impI)
      show "cobs_decode enc SPI_BUFFER_SIZE = Some (status_payload (g_protocol_state sl))"
        using e .
    next
      assume "dma_cntr sl = 0"
      then show "dma_frames (snd (cmd_get_status sl p))
                   = dma_frames sl @ [[SPI_RESP_SYNC0, SPI_RESP_SYNC1, of_nat (length enc)] @ enc]"
        using i g(1) by simp
    next
      assume n: "dma_cntr sl \<noteq> 0"
      then show q1: "g_tx_queue (snd (cmd_get_status sl p))
                   = [SPI_RESP_SYNC0, SPI_RESP_SYNC1, of_nat (length enc)] @ enc"
        using b g(2) by simp
      from n show q2: "g_tx_queue_pending (snd (cmd_get_status sl p)) = 1"
        using b g(3) by simp
      from n have q3: "dma_frames (snd (cmd_get_status sl p)) = dma_frames sl"
        using b g(1) by simp
      show "dma_frames (protocol_tx_process_queue
                                 ((snd (cmd_get_status sl p))\<lparr>dma_cntr := 0\<rparr>))
                     = dma_frames sl
                       @ [[SPI_RESP_SYNC0, SPI_RESP_SYNC1, of_nat (length enc)] @ enc]"
        using q [OF q1 q2 q3] .
    qed
  qed
  show ?thesis
    unfolding Let_def using c d(1) p6 p1 s f by blast
qed

lemma status_example_facts:
  "g_tx_queue_pending status_example = 0"
  "dma_cntr status_example = 0"
  "dma_frames status_example = []"
  "element_count (g_protocol_state status_example) = 2"
  "element_count (g_protocol_state (snd (cmd_get_status status_example []))) = 2"
  "status_payload (g_protocol_state status_example) = [0, 3, 2, 1, 0, 1, 0, 0, 0, 0]"
  by code_simp+

lemma status_sending_facts:
  "g_tx_queue_pending status_sending = 0"
  "dma_cntr status_sending = 8"
  "dma_frames status_sending = [[0xA5, 0x5A, 0x05, 0x01, 0x02, 0x01, 0x01, 0x01]]"
  "status_payload (g_protocol_state status_sending) = [0, 3, 2, 1, 0, 1, 0, 0, 0, 0]"
  by code_simp+

theorem status_dirty_last_writer_wins_witness:
  "(let after_read = g_protocol_state (snd (cmd_get_status status_example []));
        changed = foldl protocol_element_changed after_read [0, 5, 1]
    in status_dirty after_read = 0
       \<and> status_dirty_id after_read = 0xFF
       \<and> status_dirty_id changed = 1
       \<and> status_payload changed ! 6 = 1
       \<and> status_payload changed ! 1 AND STATUS_FLAG_DIRTY \<noteq> 0)
   \<and> (1::u8) < element_count (g_protocol_state status_example)
   \<and> status_dirty_id (protocol_element_changed (g_protocol_state status_example) 1) = 1
   \<and> g_tx_queue_pending status_example = 0 \<and> dma_cntr status_example = 0
   \<and> (\<exists>enc. dma_frames (snd (cmd_get_status status_example []))
                 = [[0xA5, 0x5A, of_nat (length enc)] @ enc]
               \<and> cobs_decode enc SPI_BUFFER_SIZE = Some [0, 3, 2, 1, 0, 1, 0, 0, 0, 0])
   \<and> g_tx_queue_pending status_sending = 0 \<and> dma_cntr status_sending = 8
   \<and> (\<exists>enc. cobs_decode enc SPI_BUFFER_SIZE = Some [0, 3, 2, 1, 0, 1, 0, 0, 0, 0]
          \<and> g_tx_queue (snd (cmd_get_status status_sending []))
              = [0xA5, 0x5A, of_nat (length enc)] @ enc
          \<and> g_tx_queue_pending (snd (cmd_get_status status_sending [])) = 1
          \<and> dma_frames (protocol_tx_process_queue
                          ((snd (cmd_get_status status_sending []))\<lparr>dma_cntr := 0\<rparr>))
              = [[0xA5, 0x5A, 0x05, 0x01, 0x02, 0x01, 0x01, 0x01],
                 [0xA5, 0x5A, of_nat (length enc)] @ enc])"
  using status_dirty_last_writer_wins
          [of status_example "[]" "[0, 5, 1]" 1 "g_protocol_state status_example"]
        status_dirty_last_writer_wins
          [of status_sending "[]" "[]" 1 "g_protocol_state status_example"]
  by (auto simp add: status_example_facts status_sending_facts Let_def)


section \<open>Screen ordinals\<close>

text \<open>A provisioned tree with a local screen declared before the second base screen:
  a screen, a list on it, a text row, the row's local screen, and another base screen.\<close>

definition scenario_local_screen :: "(u8 \<times> string) list" where
  \<open>scenario_local_screen =
    [(JSON_FLAG_HEAD, ''{"t":"h","n":5}''),
     (0, ''{"t":"s"}''),
     (0, ''{"t":"l","p":0,"x":0,"y":8,"r":3}''),
     (0, ''{"t":"t","p":1,"x":8,"tx":"Config"}''),
     (0, ''{"t":"s","p":1}''),
     (JSON_FLAG_COMMIT, ''{"t":"s"}'')]\<close>

definition local_screen_state :: protocol_state_t where
  "local_screen_state = g_protocol_state (provision slave_init scenario_local_screen)"

text \<open>Claim C4 at this tree: element 4 is the base screen of ordinal 1 (element 3 is a local
  screen, its parent is the text row 2), yet \<open>find_screen_ordinal_by_id\<close> answers 2 for it,
  because its loop counts the local screen as well.\<close>

theorem find_screen_ordinal_not_inverse:
  "map parent_id (elements local_screen_state) = [0xFF, 0, 1, 2, 0xFF]
   \<and> map el_type (elements local_screen_state)
       = [ELEMENT_SCREEN, ELEMENT_LIST_VIEW, ELEMENT_TEXT, ELEMENT_SCREEN, ELEMENT_SCREEN]
   \<and> element_count local_screen_state = 5
   \<and> find_screen_id_by_ordinal local_screen_state 1 = 4
   \<and> find_screen_ordinal_by_id local_screen_state 4 = 2
   \<and> find_screen_id_by_ordinal local_screen_state 2 = INVALID_ELEMENT_ID"
  by code_simp


section \<open>Barrel values\<close>

lemma sint_clamp_int16: "sint (word_of_int (clamp_int16 v) :: 16 word) = clamp_int16 v"
proof -
  have "- (2 ^ 15) \<le> clamp_int16 v" "clamp_int16 v < 2 ^ 15"
    by (simp_all add: clamp_int16_def)
  then show ?thesis
    by (simp add: signed_of_int signed_take_bit_int_eq_self)
qed

lemma barrel_find_modify:
  "(\<And>n. b_element_id (f n) = b_element_id n) \<Longrightarrow>
   find (\<lambda>n. b_element_id n = i) (ur_barrel_modify f i ns)
     = map_option f (find (\<lambda>n. b_element_id n = i) ns)"
  by (induction ns) simp_all

lemma numeric_set_value_found:
  assumes "i < element_count st"
    and "ur_barrel_find (runtime (numeric_set_value st i v)) i \<noteq> None"
  shows "protocol_numeric_value (numeric_set_value st i v) i = clamp_int16 v"
  using assms
  by (auto simp: numeric_set_value_def protocol_numeric_value_def ur_barrel_get_or_add_def
        ur_barrel_find_def barrel_find_modify sint_clamp_int16 Let_def
        split: option.splits if_splits prod.splits)

lemma numeric_set_value_existing:
  assumes "i < element_count st" and "ur_barrel_find (runtime st) i \<noteq> None"
  shows "ur_barrel_find (runtime (numeric_set_value st i v)) i \<noteq> None"
  using assms
  by (auto simp: numeric_set_value_def ur_barrel_get_or_add_def
        ur_barrel_find_def barrel_find_modify Let_def
        split: option.splits if_splits prod.splits)

lemma numeric_store_value:
  assumes "i < element_count st"
  shows "protocol_numeric_value (numeric_store st i v aux) i
         = (if ur_barrel_find (runtime (numeric_store st i v aux)) i = None then 0
            else clamp_int16 v)"
  using assms
  by (auto simp: numeric_store_def protocol_numeric_value_def ur_barrel_get_or_add_def
        ur_barrel_find_def barrel_find_modify sint_clamp_int16 Let_def
        split: option.splits if_splits prod.splits)


lemma find_handler_barrel:
  "find_handler ELEMENT_BARREL
     = Some \<lparr>h_type = ELEMENT_BARREL, h_create = Some handle_create_barrel,
              h_update = Some handle_update_barrel\<rparr>"
  by (simp add: find_handler_def k_element_handlers_def)

lemma type_key_barrel:
  "map_type_key (bytes_of ''b'') = ELEMENT_BARREL"
  "(bytes_of ''h'' = bytes_of ''b'') = False"
  "(bytes_of ''b'' = bytes_of ''h'') = False"
  "([] = bytes_of ''b'') = False" "([] = bytes_of ''h'') = False"
  "(bytes_of ''b'' = []) = False" "(bytes_of ''h'' = []) = False"
  by (simp_all add: map_type_key_def bytes_of_def)

lemma add_basic_element_fail:
  assumes "fst (add_basic_element st parent ty x y) = 0xFF"
  shows "snd (add_basic_element st parent ty x y) = st"
proof (cases "element_capacity st = 0 \<or> element_count st \<ge> element_capacity st
              \<or> elements st = [] \<or> pos_x st = [] \<or> pos_y st = []")
  case True
  then show ?thesis
    by (auto simp: add_basic_element_def)
next
  case False
  then have "fst (add_basic_element st parent ty x y) = element_count st"
    by (simp add: add_basic_element_def Let_def split: prod.splits)
  with assms have "element_count st = 0xFF"
    by simp
  moreover have "unat (element_capacity st) \<le> 255"
    using unsigned_less [where 'a = nat, of "element_capacity st"] by simp
  ultimately show ?thesis
    using False by (simp add: word_le_nat_alt)
qed

lemma add_basic_element_ok:
  assumes "fst (add_basic_element st parent ty x y) \<noteq> 0xFF"
  shows "fst (add_basic_element st parent ty x y) = element_count st"
    and "element_count (snd (add_basic_element st parent ty x y)) = element_count st + 1"
    and "element_count st < element_count st + 1"
    and "runtime (snd (add_basic_element st parent ty x y)) = runtime st"
proof -
  have lt: "element_count st < element_capacity st"
    using assms by (auto simp: add_basic_element_def split: if_splits)
  then have "unat (element_count st) < 255"
    using unsigned_less [where 'a = nat, of "element_capacity st"]
    by (simp add: word_less_nat_alt)
  then show "element_count st < element_count st + 1"
    by (simp add: word_less_nat_alt unat_add_lem [THEN iffD1])
  show "fst (add_basic_element st parent ty x y) = element_count st"
    using assms by (auto simp: add_basic_element_def Let_def split: if_splits prod.splits)
  show "element_count (snd (add_basic_element st parent ty x y)) = element_count st + 1"
    using assms
    by (auto simp: add_basic_element_def Let_def ui_attr_store_position_def
          split: if_splits prod.splits)
  show "runtime (snd (add_basic_element st parent ty x y)) = runtime st"
    using assms
    by (auto simp: add_basic_element_def Let_def ui_attr_store_position_def
          split: if_splits prod.splits)
qed

lemma err_neq_0: "err \<noteq> 0"
  by (simp add: err_def)

lemma create_barrel_value:
  assumes "fst (handle_create_barrel ctx st) = 0"
    and "extract_int_key (c_os ctx) (bytes_of ''v'') = Some v"
  shows "protocol_numeric_value (snd (handle_create_barrel ctx st)) (element_count st)
         = (if ur_barrel_find (runtime (snd (handle_create_barrel ctx st))) (element_count st)
               = None
            then 0 else clamp_int16 (max 0 v))"
proof -
  let ?a = "add_basic_element st (c_parent_id ctx) ELEMENT_BARREL (c_x ctx) (c_y ctx)"
  have ok: "fst ?a \<noteq> 0xFF"
    using assms(1) by (auto simp: handle_create_barrel_def Let_def err_neq_0 split: prod.splits)
  note a = add_basic_element_ok [OF ok]
  have h: "snd (handle_create_barrel ctx st)
           = numeric_store (snd ?a) (element_count st) (max 0 v) 0"
    using ok a(1) assms(2)
    by (auto simp: handle_create_barrel_def Let_def max_def split: prod.splits)
  have "element_count st < element_count (snd ?a)"
    using a(2,3) by simp
  from numeric_store_value [OF this] show ?thesis
    unfolding h .
qed

lemma sint32_range: "- (2 ^ 31) \<le> sint (w :: 32 word) \<and> sint w < 2 ^ 31"
  using sint_ge [of w] sint_lt [of w] by simp

lemma extract_int_scan_range:
  "extract_int_scan key buf = Some v \<Longrightarrow> - (2 ^ 31) \<le> v \<and> v < 2 ^ 31"
proof (induction buf)
  case Nil
  then show ?case by simp
next
  case (Cons c cs)
  then show ?case
    using sint32_range
    by (auto simp: Let_def split: if_splits list.splits prod.splits)
qed

lemma extract_int_key_range:
  "extract_int_key os key = Some v \<Longrightarrow> - (2 ^ 31) \<le> v \<and> v < 2 ^ 31"
  using extract_int_scan_range [of key os v]
  by (simp add: extract_int_key_def split: if_splits)

lemma type_key_h: "map_type_key (bytes_of ''h'') \<noteq> ELEMENT_BARREL"
  by (simp add: map_type_key_def bytes_of_def)

lemma update_barrel_dispatch_typed:
  assumes "element_capacity st \<noteq> 0"
    and "extract_int_key os (bytes_of ''e'') = Some (uint eid)"
    and "eid < element_count st"
    and "el_type (elements st ! unat eid) = ELEMENT_BARREL"
    and "c_str (snd (extract_string_key os (bytes_of ''t'') 16)) = []
         \<or> map_type_key (c_str (snd (extract_string_key os (bytes_of ''t'') 16)))
             = ELEMENT_BARREL"
  shows "handle_element_object os st = handle_update_barrel eid os st"
proof -
  have lt: "uint eid < uint (element_count st)"
    using assms(3) by (simp add: word_less_def)
  have nh: "c_str (snd (extract_string_key os (bytes_of ''t'') 16)) \<noteq> bytes_of ''h''"
    using assms(5) type_key_h type_key_barrel(5) by metis
  show ?thesis
    using assms(1,2,4,5) lt nh
    by (auto simp: handle_element_object_def Let_def find_handler_barrel)
qed

lemma numeric_set_value_value:
  assumes "i < element_count st"
  shows "protocol_numeric_value (numeric_set_value st i v) i
         = (if ur_barrel_find (runtime (numeric_set_value st i v)) i = None then 0
            else clamp_int16 v)"
proof (cases "ur_barrel_find (runtime (numeric_set_value st i v)) i = None")
  case True
  then show ?thesis
    by (simp add: protocol_numeric_value_def)
next
  case False
  then show ?thesis
    using numeric_set_value_found [OF assms, of v] by auto
qed

text \<open>A provisioned screen with one barrel, and the same provisioning with 191 reserved
  slots, whose tables leave 4 bytes of the arena: the barrel is created without a runtime
  node.\<close>

definition scenario_barrel :: "(u8 \<times> string) list" where
  \<open>scenario_barrel =
    [(JSON_FLAG_HEAD, ''{"t":"h","n":3}''),
     (0, ''{"t":"s"}''),
     (JSON_FLAG_COMMIT, ''{"t":"b","p":0,"x":64,"y":8,"v":2}'')]\<close>

definition barrel_state :: protocol_state_t where
  "barrel_state = g_protocol_state (provision slave_init scenario_barrel)"

definition barrel_update :: "u8 list" where
  \<open>barrel_update = bytes_of ''{"e":1,"v":-5}''\<close>

definition barrel_create_ctx :: element_create_ctx_t where
  \<open>barrel_create_ctx = \<lparr>c_parent_id = 0, c_x = 64, c_y = 8, c_type_code = ELEMENT_BARREL,
      c_os = bytes_of ''"t":"b","p":0,"x":64,"y":8,"v":-5''\<rparr>\<close>

definition scenario_barrel_no_node :: "(u8 \<times> string) list" where
  \<open>scenario_barrel_no_node =
    [(JSON_FLAG_HEAD, ''{"t":"h","n":191}''),
     (0, ''{"t":"s"}''),
     (JSON_FLAG_COMMIT, ''{"t":"b","p":0,"x":64,"y":8,"v":2}'')]\<close>

definition barrel_no_node :: protocol_state_t where
  "barrel_no_node = g_protocol_state (provision slave_init scenario_barrel_no_node)"

definition barrel_update_wide :: "u8 list" where
  \<open>barrel_update_wide = bytes_of ''{"e":1,"v":4294967295}''\<close>

text \<open>Claim C10, as stated: an update descriptor addressing an existing barrel stores its
  integer \<open>v\<close> clamped to the range of \<^verbatim>\<open>int16_t\<close>. The digit string 4294967295 is read
  into the 32-bit \<^verbatim>\<open>int\<close> as \<open>-1\<close> and \<open>-1\<close> is stored, where the clamp of 4294967295
  is 32767; and for the barrel without a node, with no room left for one, the update is
  answered 0 and stores nothing.\<close>

theorem barrel_update_counterexample:
  "extract_int_key barrel_update_wide (bytes_of ''v'') = Some (- 1)
   \<and> fst (parse_single_element_object barrel_update_wide barrel_state) = 0
   \<and> protocol_numeric_value (snd (parse_single_element_object barrel_update_wide barrel_state)) 1
       = - 1
   \<and> clamp_int16 4294967295 = 32767
   \<and> element_count barrel_no_node = 2
   \<and> el_type (elements barrel_no_node ! 1) = ELEMENT_BARREL
   \<and> ur_barrel_find (runtime barrel_no_node) 1 = None
   \<and> fst (parse_single_element_object barrel_update barrel_no_node) = 0
   \<and> ur_barrel_find (runtime (snd (parse_single_element_object barrel_update barrel_no_node))) 1
       = None
   \<and> protocol_numeric_value (snd (parse_single_element_object barrel_update barrel_no_node)) 1
       = 0"
  by code_simp

text \<open>Claim C10, amended: for an update descriptor that addresses an existing barrel by \<open>e\<close>
  (its type key absent or naming the barrel type), let \<open>v\<close> be the 32-bit \<^verbatim>\<open>int\<close> that the
  parser reads for the key \<open>v\<close>. The update is answered 0 and the value read back is \<open>v\<close>
  clamped to the range of \<^verbatim>\<open>int16_t\<close> and to nothing else whenever the barrel has a runtime
  node afterwards, which it has when it had one before; so a negative \<open>v\<close> is stored negative.
  The creation of a barrel with the same \<open>v\<close> stores \<open>max 0 v\<close> clamped, which is never
  negative.\<close>

theorem barrel_update_clamps_parsed_int:
  assumes "element_capacity st \<noteq> 0"
    and "extract_int_key os (bytes_of ''e'') = Some (uint eid)"
    and "eid < element_count st"
    and "el_type (elements st ! unat eid) = ELEMENT_BARREL"
    and "c_str (snd (extract_string_key os (bytes_of ''t'') 16)) = []
         \<or> map_type_key (c_str (snd (extract_string_key os (bytes_of ''t'') 16)))
             = ELEMENT_BARREL"
    and "extract_int_key os (bytes_of ''v'') = Some v"
    and "fst (handle_create_barrel ctx cst) = 0"
    and "extract_int_key (c_os ctx) (bytes_of ''v'') = Some v"
  shows "fst (handle_element_object os st) = 0
    \<and> - (2 ^ 31) \<le> v \<and> v < 2 ^ 31
    \<and> protocol_numeric_value (snd (handle_element_object os st)) eid
        = (if ur_barrel_find (runtime (snd (handle_element_object os st))) eid = None then 0
           else clamp_int16 v)
    \<and> (ur_barrel_find (runtime st) eid \<noteq> None
        \<longrightarrow> protocol_numeric_value (snd (handle_element_object os st)) eid = clamp_int16 v)
    \<and> (v < 0 \<and> ur_barrel_find (runtime st) eid \<noteq> None
        \<longrightarrow> protocol_numeric_value (snd (handle_element_object os st)) eid < 0)
    \<and> protocol_numeric_value (snd (handle_create_barrel ctx cst)) (element_count cst)
        = (if ur_barrel_find (runtime (snd (handle_create_barrel ctx cst))) (element_count cst)
              = None
           then 0 else clamp_int16 (max 0 v))
    \<and> 0 \<le> protocol_numeric_value (snd (handle_create_barrel ctx cst)) (element_count cst)"
proof -
  have d: "handle_element_object os st = (0, numeric_set_value st eid v)"
    using update_barrel_dispatch_typed [OF assms(1-5)] assms(6)
    by (simp add: handle_update_barrel_def)
  note u = numeric_set_value_value [OF assms(3), of v]
  have e: "ur_barrel_find (runtime st) eid \<noteq> None
           \<longrightarrow> ur_barrel_find (runtime (numeric_set_value st eid v)) eid \<noteq> None"
    using numeric_set_value_existing [OF assms(3)] by blast
  have n: "v < 0 \<longrightarrow> clamp_int16 v < 0"
    by (simp add: clamp_int16_def)
  note r = extract_int_key_range [OF assms(6)]
  note c = create_barrel_value [OF assms(7,8)]
  have p: "0 \<le> clamp_int16 (max 0 v)"
    by (simp add: clamp_int16_def max_def)
  show ?thesis
    using d u e n r c p by auto
qed

lemma barrel_parsed_example_facts:
  "element_capacity barrel_state \<noteq> 0"
  "extract_int_key barrel_update (bytes_of ''e'') = Some (uint (1 :: u8))"
  "(1 :: u8) < element_count barrel_state"
  "el_type (elements barrel_state ! Suc 0) = ELEMENT_BARREL"
  "c_str (snd (extract_string_key barrel_update (bytes_of ''t'') 16)) = []"
  "ur_barrel_find (runtime barrel_state) 1 \<noteq> None"
  "ur_barrel_find (runtime (snd (handle_element_object barrel_update barrel_state))) 1 \<noteq> None"
  "extract_int_key barrel_update (bytes_of ''v'') = Some (- 5)"
  "fst (handle_create_barrel barrel_create_ctx barrel_state) = 0"
  "extract_int_key (c_os barrel_create_ctx) (bytes_of ''v'') = Some (- 5)"
  "element_count barrel_state = 2"
  "ur_barrel_find (runtime (snd (handle_create_barrel barrel_create_ctx barrel_state))) 2
     \<noteq> None"
  "clamp_int16 (- 5) = - 5"
  "clamp_int16 0 = 0"
  by code_simp+

theorem barrel_update_clamps_parsed_int_witness:
  "element_capacity barrel_state \<noteq> 0
   \<and> extract_int_key barrel_update (bytes_of ''e'') = Some 1
   \<and> (1 :: u8) < element_count barrel_state
   \<and> el_type (elements barrel_state ! Suc 0) = ELEMENT_BARREL
   \<and> extract_int_key barrel_update (bytes_of ''v'') = Some (- 5)
   \<and> ur_barrel_find (runtime barrel_state) 1 \<noteq> None
   \<and> fst (handle_element_object barrel_update barrel_state) = 0
   \<and> protocol_numeric_value (snd (handle_element_object barrel_update barrel_state)) 1 = - 5
   \<and> fst (handle_create_barrel barrel_create_ctx barrel_state) = 0
   \<and> extract_int_key (c_os barrel_create_ctx) (bytes_of ''v'') = Some (- 5)
   \<and> protocol_numeric_value (snd (handle_create_barrel barrel_create_ctx barrel_state)) 2 = 0"
  using barrel_update_clamps_parsed_int
          [where st = barrel_state and os = barrel_update and eid = 1 and v = "- 5"
             and ctx = barrel_create_ctx and cst = barrel_state]
  by (simp add: barrel_parsed_example_facts)


section \<open>Exhausted slots and arena during provisioning\<close>



















section \<open>Visibility depends on the view only\<close>

text \<open>The visibility and focus helpers read the element table, the screen-role attributes,
  the navigation stack below its depth, the active screen and the screen animation. Two states
  that agree on these agree on every helper.\<close>

definition same_view :: "protocol_state_t \<Rightarrow> protocol_state_t \<Rightarrow> bool" where
  "same_view a b =
     (element_count a = element_count b \<and> element_capacity a = element_capacity b
      \<and> elements a = elements b \<and> attrs (runtime a) = attrs (runtime b)
      \<and> nav_depth a = nav_depth b
      \<and> take (unat (nav_depth a)) (nav_stack a) = take (unat (nav_depth b)) (nav_stack b)
      \<and> active_screen a = active_screen b \<and> screen_anim a = screen_anim b)"

lemma same_viewD:
  assumes "same_view a b"
  shows "element_count a = element_count b" and "element_capacity a = element_capacity b"
    and "elements a = elements b" and "attrs (runtime a) = attrs (runtime b)"
    and "nav_depth a = nav_depth b"
    and "take (unat (nav_depth b)) (nav_stack a) = take (unat (nav_depth b)) (nav_stack b)"
    and "active_screen a = active_screen b" and "screen_anim a = screen_anim b"
  using assms by (auto simp: same_view_def)

lemma same_view_refl: "same_view a a"
  by (simp add: same_view_def)

lemma same_view_sym: "same_view a b \<Longrightarrow> same_view b a"
  by (auto simp: same_view_def)

lemma same_view_trans: "same_view a b \<Longrightarrow> same_view b c \<Longrightarrow> same_view a c"
  by (auto simp: same_view_def)

lemma same_view_screen_role:
  "same_view a b \<Longrightarrow> protocol_screen_role a i = protocol_screen_role b i"
  by (simp add: same_viewD protocol_screen_role_def ui_attr_get_screen_role_def
        ui_attr_find_def)

lemma same_view_find_screen_id_loop:
  "same_view a b \<Longrightarrow> find_screen_id_loop a sord i seen k = find_screen_id_loop b sord i seen k"
proof (induction k arbitrary: i seen)
  case 0
  show ?case by simp
next
  case (Suc k)
  show ?case
    using Suc.IH [OF Suc.prems] same_view_screen_role [OF Suc.prems, of i]
    by (simp add: same_viewD(3) [OF Suc.prems])
qed

lemma same_view_find_screen_id:
  "same_view a b \<Longrightarrow> find_screen_id_by_ordinal a sord = find_screen_id_by_ordinal b sord"
  using same_view_find_screen_id_loop [of a b sord 0 0 "unat (element_count b)"]
  by (simp add: find_screen_id_by_ordinal_def same_viewD(1))

lemma same_view_descendant_walk:
  "same_view a b \<Longrightarrow> is_descendant_walk a anc cur k = is_descendant_walk b anc cur k"
  by (induction k arbitrary: cur) (simp_all add: same_viewD(1,3))

lemma same_view_descendant:
  "same_view a b \<Longrightarrow> is_descendant_of a i anc = is_descendant_of b i anc"
  using same_view_descendant_walk [of a b anc i "unat (element_count b)"]
  by (simp add: is_descendant_of_def same_viewD(1))

lemma same_view_root_walk:
  "same_view a b \<Longrightarrow> element_root_screen_walk a cur k = element_root_screen_walk b cur k"
  by (induction k arbitrary: cur) (simp_all add: same_viewD(1,3))

lemma same_view_root_screen:
  "same_view a b \<Longrightarrow> element_root_screen a i = element_root_screen b i"
  using same_view_root_walk [of a b i "unat (element_count b)"]
  by (simp add: element_root_screen_def same_viewD(1))

lemma same_view_focusable:
  "same_view a b \<Longrightarrow> element_focusable a i = element_focusable b i"
  by (simp add: element_focusable_def same_viewD(1,3))

lemma same_view_screen_is_local:
  "same_view a b \<Longrightarrow> screen_is_local a i = screen_is_local b i"
  by (simp add: screen_is_local_def same_viewD(1,3))

lemma take_min_take: "take (min n m) xs = take m (take n xs)"
  by (simp add: min.commute)

lemma same_view_target_active:
  assumes "same_view a b"
  shows "nav_target_active a t = nav_target_active b t"
proof -
  define d where "d = (if nav_depth b > NAV_STACK_MAX_DEPTH then NAV_STACK_MAX_DEPTH
                       else nav_depth b)"
  note v = same_viewD [OF assms]
  have le: "unat d \<le> unat (nav_depth b)"
    by (simp add: d_def word_less_nat_alt)
  have "take (unat d) (nav_stack a) = take (unat d) (take (unat (nav_depth b)) (nav_stack a))"
    using le by (simp add: min_absorb1)
  also have "\<dots> = take (unat d) (take (unat (nav_depth b)) (nav_stack b))"
    by (simp only: v(6))
  also have "\<dots> = take (unat d) (nav_stack b)"
    using le by (simp add: min_absorb1)
  finally show ?thesis
    by (auto simp: nav_target_active_def Let_def v(5) d_def split: if_splits)
qed

lemma same_view_top_entry:
  assumes "same_view a b" and "nav_depth b \<noteq> 0"
  shows "nav_stack a ! unat (nav_depth b - 1) = nav_stack b ! unat (nav_depth b - 1)"
proof -
  note v = same_viewD [OF assms(1)]
  have lt: "unat (nav_depth b - 1) < unat (nav_depth b)"
    using assms(2) by (simp add: unat_minus_one unat_gt_0)
  have "nav_stack a ! unat (nav_depth b - 1)
        = take (unat (nav_depth b)) (nav_stack a) ! unat (nav_depth b - 1)"
    using lt by simp
  also have "\<dots> = take (unat (nav_depth b)) (nav_stack b) ! unat (nav_depth b - 1)"
    by (simp only: v(6))
  also have "\<dots> = nav_stack b ! unat (nav_depth b - 1)"
    using lt by simp
  finally show ?thesis .
qed

lemma same_view_active_context:
  assumes "same_view a b"
  shows "nav_active_context a = nav_active_context b"
proof (cases "nav_depth b = 0")
  case True
  then show ?thesis
    using same_view_find_screen_id [OF assms]
    by (simp add: nav_active_context_def same_viewD(5,7) [OF assms])
next
  case False
  then show ?thesis
    using same_view_top_entry [OF assms False]
    by (simp add: nav_active_context_def same_viewD(5) [OF assms] Let_def)
qed

lemma same_view_nested_hidden:
  "same_view a b \<Longrightarrow> nested_list_hidden a c = nested_list_hidden b c"
  using same_view_target_active [of a b c]
  by (simp add: nested_list_hidden_def Let_def same_viewD(1,3))

lemma same_view_ancestors_walk:
  "same_view a b \<Longrightarrow> visible_ancestors_walk a cur k = visible_ancestors_walk b cur k"
proof (induction k arbitrary: cur)
  case 0
  show ?case by simp
next
  case (Suc k)
  show ?case
    using Suc.IH [OF Suc.prems] same_view_nested_hidden [OF Suc.prems, of cur]
    by (simp add: same_viewD(1,3) [OF Suc.prems])
qed

lemma same_view_visible:
  assumes "same_view a b"
  shows "protocol_is_element_visible a i = protocol_is_element_visible b i"
proof -
  note v = same_viewD [OF assms]
  have t: "nav_depth b \<noteq> 0 \<Longrightarrow>
           nav_stack a ! unat (nav_depth b - 1) = nav_stack b ! unat (nav_depth b - 1)"
    using same_view_top_entry [OF assms] by simp
  show ?thesis
    unfolding protocol_is_element_visible_def
      same_view_active_context [OF assms] same_view_find_screen_id [OF assms]
      same_view_descendant [OF assms] same_view_root_screen [OF assms]
      same_view_screen_is_local [OF assms] same_view_target_active [OF assms]
      same_view_ancestors_walk [OF assms] v(1) v(5) v(8)
    using t by (simp add: Let_def cong: if_cong)
qed

section \<open>Pushing a local screen\<close>

text \<open>The first element, in id order, that is visible, is the owner or lies under it, and is
  focusable: what \<^verbatim>\<open>protocol_focus_first_under\<close> looks for.\<close>

definition first_visible_focusable_under :: "protocol_state_t \<Rightarrow> u8 \<Rightarrow> u8 option" where
  "first_visible_focusable_under st owner_id =
     find (\<lambda>i. protocol_is_element_visible st i
               \<and> (i = owner_id \<or> is_descendant_of st i owner_id)
               \<and> element_focusable st i)
          (map of_nat [0..<unat (element_count st)])"

lemma same_view_first_under:
  assumes "same_view a b"
  shows "first_visible_focusable_under a owner = first_visible_focusable_under b owner"
  unfolding first_visible_focusable_under_def
  by (simp add: same_view_visible [OF assms] same_view_descendant [OF assms]
        same_view_focusable [OF assms] same_viewD(1) [OF assms])

lemma same_view_set_focus: "same_view (protocol_set_focus st i) st"
  by (simp add: protocol_set_focus_def same_view_def)

lemma same_view_clear_focus: "same_view (protocol_clear_focus st) st"
  by (simp add: protocol_clear_focus_def same_view_def)

lemma same_view_update_local: "same_view (nav_update_active_local_screen st) st"
  by (simp add: nav_update_active_local_screen_def same_view_def Let_def)

lemma set_focus_visible:
  "protocol_is_element_visible st i \<Longrightarrow> element_focusable st i \<Longrightarrow>
   focused_element (protocol_set_focus st i) = i"
  by (auto simp: protocol_set_focus_def protocol_is_element_visible_def)

lemma visible_in_range: "protocol_is_element_visible st i \<Longrightarrow> i < element_count st"
  by (auto simp: protocol_is_element_visible_def split: if_splits)

lemma focus_first_under_loop_find:
  "focus_first_under_loop st owner (of_nat a) k
     = (case find (\<lambda>i. protocol_is_element_visible st i
                        \<and> (i = owner \<or> is_descendant_of st i owner)
                        \<and> element_focusable st i)
                  (map of_nat [a..<a + k]) of
          None \<Rightarrow> protocol_clear_focus st
        | Some i \<Rightarrow> protocol_set_focus st i)"
proof (induction k arbitrary: a)
  case 0
  show ?case by simp
next
  case (Suc k)
  have l: "[a..<a + Suc k] = a # [Suc a..<Suc a + k]"
    by (simp add: upt_conv_Cons)
  have s: "(of_nat a :: u8) + 1 = of_nat (Suc a)"
    by simp
  show ?case
    unfolding l focus_first_under_loop.simps s Suc.IH [of "Suc a"]
    by auto
qed

lemma focus_first_under_result:
  "protocol_focus_first_under st owner
     = (case first_visible_focusable_under st owner of
          None \<Rightarrow> protocol_clear_focus st
        | Some i \<Rightarrow> protocol_set_focus st i)"
  using focus_first_under_loop_find [of st owner 0 "unat (element_count st)"]
  by (simp add: protocol_focus_first_under_def first_visible_focusable_under_def)

lemma first_under_props:
  assumes "first_visible_focusable_under st owner = Some i"
  shows "protocol_is_element_visible st i" and "element_focusable st i"
    and "i \<noteq> INVALID_ELEMENT_ID"
proof -
  from assms have p: "protocol_is_element_visible st i \<and> element_focusable st i"
    unfolding first_visible_focusable_under_def by (auto dest: find_Some_iff [THEN iffD1])
  then show "protocol_is_element_visible st i" "element_focusable st i"
    by simp_all
  from p visible_in_range [of st i] have "unat i < unat (element_count st)"
    by (simp add: word_less_nat_alt)
  moreover have "unat (element_count st) \<le> 255"
    using unat_u8_bound [of "element_count st"] by simp
  ultimately show "i \<noteq> INVALID_ELEMENT_ID"
    by auto
qed

lemma focus_first_under_focus:
  "focused_element (protocol_focus_first_under st owner)
     = (case first_visible_focusable_under st owner of
          None \<Rightarrow> INVALID_ELEMENT_ID | Some i \<Rightarrow> i)"
  using first_under_props(1,2) [of st owner]
  by (auto simp: focus_first_under_result set_focus_visible protocol_clear_focus_def
        split: option.splits)

lemma same_view_focus_first_under: "same_view (protocol_focus_first_under st owner) st"
  by (simp add: focus_first_under_result same_view_set_focus same_view_clear_focus
        split: option.splits)

lemma local_screen_ordinal:
  assumes "screen_is_local st screen_id"
  shows "find_screen_ordinal_by_id st screen_id = INVALID_ELEMENT_ID"
  using assms
  by (auto simp: screen_is_local_def find_screen_ordinal_by_id_def Let_def split: if_splits)

lemma set_focus_frame:
  "runtime (protocol_set_focus s i) = runtime s"
  "nav_stack (protocol_set_focus s i) = nav_stack s"
  "nav_depth (protocol_set_focus s i) = nav_depth s"
  "active_screen (protocol_set_focus s i) = active_screen s"
  by (simp_all add: protocol_set_focus_def)

lemma clear_focus_frame:
  "runtime (protocol_clear_focus s) = runtime s"
  "nav_stack (protocol_clear_focus s) = nav_stack s"
  "nav_depth (protocol_clear_focus s) = nav_depth s"
  "active_screen (protocol_clear_focus s) = active_screen s"
  by (simp_all add: protocol_clear_focus_def)

lemma focus_first_under_frame:
  "runtime (protocol_focus_first_under s owner) = runtime s"
  "nav_stack (protocol_focus_first_under s owner) = nav_stack s"
  "nav_depth (protocol_focus_first_under s owner) = nav_depth s"
  "active_screen (protocol_focus_first_under s owner) = active_screen s"
  by (simp_all add: focus_first_under_result set_focus_frame clear_focus_frame
        split: option.splits)

lemma update_local_frame:
  "runtime (nav_update_active_local_screen s) = runtime s"
  "nav_stack (nav_update_active_local_screen s) = nav_stack s"
  "nav_depth (nav_update_active_local_screen s) = nav_depth s"
  "active_screen (nav_update_active_local_screen s) = active_screen s"
  "focused_element (nav_update_active_local_screen s) = focused_element s"
  by (simp_all add: nav_update_active_local_screen_def Let_def)

text \<open>A provisioned menu: a base screen 0 with a list 1 of two rows, 2 and 5; row 2 owns the
  local screen 3, which holds a barrel 4; row 5 owns the local screen 6, which holds only a
  text 7; and a trigger 8 on the base screen.\<close>

definition scenario_nav :: "(u8 \<times> string) list" where
  \<open>scenario_nav =
    [(JSON_FLAG_HEAD, ''{"t":"h","n":9}''),
     (0, ''{"t":"s"}''),
     (0, ''{"t":"l","p":0,"x":0,"y":8,"r":3}''),
     (0, ''{"t":"t","p":1,"x":8,"tx":"Config"}''),
     (0, ''{"t":"s","p":1}''),
     (0, ''{"t":"b","p":3,"x":64,"y":8,"v":0}''),
     (0, ''{"t":"t","p":1,"x":8,"tx":"About"}''),
     (0, ''{"t":"s","p":1}''),
     (0, ''{"t":"t","p":6,"x":0,"y":0,"tx":"v1.0"}''),
     (JSON_FLAG_COMMIT, ''{"t":"i","p":0,"x":0,"y":56}'')]\<close>

text \<open>The state this provisioning reaches, with the list focused.\<close>

definition nav_focused :: protocol_state_t where
  "nav_focused = protocol_reset_state
     \<lparr>screen_count := 1, element_count := 9, element_capacity := 9,
      elements :=
        [\<lparr>parent_id = 0xFF, el_type = ELEMENT_SCREEN\<rparr>,
         \<lparr>parent_id = 0, el_type = ELEMENT_LIST_VIEW\<rparr>,
         \<lparr>parent_id = 1, el_type = ELEMENT_TEXT\<rparr>,
         \<lparr>parent_id = 2, el_type = ELEMENT_SCREEN\<rparr>,
         \<lparr>parent_id = 3, el_type = ELEMENT_BARREL\<rparr>,
         \<lparr>parent_id = 1, el_type = ELEMENT_TEXT\<rparr>,
         \<lparr>parent_id = 5, el_type = ELEMENT_SCREEN\<rparr>,
         \<lparr>parent_id = 6, el_type = ELEMENT_TEXT\<rparr>,
         \<lparr>parent_id = 0, el_type = ELEMENT_TRIGGER\<rparr>],
      pos_x := [0, 0, 8, 0, 64, 8, 0, 0, 0],
      pos_y := [0, 8, 0, 0, 8, 8, 0, 0, 56],
      initialized := 1, trigger_count := 1,
      runtime :=
        \<lparr>head_used = 63, used_tail = 22, attr_base = 36,
         attrs =
           [\<lparr>a_tag = UI_ATTR_TAG_TEXT, a_element_id = 2, a_body = 7 # bytes_of ''Config'' @ [0]\<rparr>,
            \<lparr>a_tag = UI_ATTR_TAG_TEXT, a_element_id = 5, a_body = 6 # bytes_of ''About'' @ [0]\<rparr>,
            \<lparr>a_tag = UI_ATTR_TAG_TEXT, a_element_id = 7, a_body = 5 # bytes_of ''v1.0'' @ [0]\<rparr>],
         triggers = [\<lparr>t_element_id = 8, t_version = 0\<rparr>],
         lists = [(ur_list_new 1)\<lparr>l_visible_rows := 3, l_last_text_child := 5\<rparr>],
         barrels = [\<lparr>b_element_id = 4, b_aux = 0, b_value = 0\<rparr>]\<rparr>,
      focused_element := 1, header_seen := 1\<rparr>"

lemma nav_focused_provisioned:
  "protocol_set_focus (g_protocol_state (provision slave_init scenario_nav)) 1 = nav_focused"
  by code_simp

text \<open>Claim C5, as stated: the push of a local screen changes the active base-screen ordinal to
  the value of \<open>find_screen_ordinal_by_id\<close> and, when nothing under the screen is focusable,
  refocuses the parent list. For the local screen 3 that value is the invalid sentinel and the
  active ordinal stays 0; for the local screen 6, which has no focusable content, the focus is
  none afterwards, not the parent list 1.\<close>

theorem push_local_screen_counterexample:
  "focused_element nav_focused = 1
   \<and> screen_is_local nav_focused 3
   \<and> fst (nav_push_local_screen nav_focused 1 3) = 1
   \<and> find_screen_ordinal_by_id nav_focused 3 = 0xFF
   \<and> active_screen nav_focused = 0
   \<and> active_screen (snd (nav_push_local_screen nav_focused 1 3)) = 0
   \<and> screen_is_local nav_focused 6
   \<and> fst (nav_push_local_screen nav_focused 1 6) = 1
   \<and> first_visible_focusable_under (snd (nav_push_local_screen nav_focused 1 6)) 6 = None
   \<and> focused_element (snd (nav_push_local_screen nav_focused 1 6)) = 0xFF"
  by code_simp

text \<open>Claim C5, amended: for every call that pushes a local-screen context (the call returns 1
  and the screen's parent is a text element), \<open>find_screen_ordinal_by_id\<close> gives the invalid
  sentinel for the screen and the active base-screen ordinal is unchanged, the depth grows by
  one, and when a visible focusable element under the screen exists, the first one is
  focused.\<close>

theorem push_local_screen_focus:
  assumes "fst (nav_push_local_screen st parent_list screen_id) = 1"
    and "screen_is_local st screen_id"
  shows "find_screen_ordinal_by_id st screen_id = INVALID_ELEMENT_ID
    \<and> active_screen (snd (nav_push_local_screen st parent_list screen_id)) = active_screen st
    \<and> nav_depth (snd (nav_push_local_screen st parent_list screen_id)) = nav_depth st + 1
    \<and> (first_visible_focusable_under
           (snd (nav_push_local_screen st parent_list screen_id)) screen_id \<noteq> None
        \<longrightarrow> first_visible_focusable_under
              (snd (nav_push_local_screen st parent_list screen_id)) screen_id
            = Some (focused_element (snd (nav_push_local_screen st parent_list screen_id))))"
proof -
  have depth: "\<not> NAV_STACK_MAX_DEPTH \<le> nav_depth st"
    using assms(1) by (auto simp: nav_push_local_screen_def)
  obtain parent_state rt1 where
    g: "ur_list_get_or_add (runtime st) parent_list = (parent_state, rt1)"
    by (cases "ur_list_get_or_add (runtime st) parent_list")
  with assms(1) depth obtain ps where ps: "parent_state = Some ps"
    by (cases parent_state) (auto simp: nav_push_local_screen_def)
  define entry where "entry = \<lparr>n_type = NAV_CTX_LOCAL_SCREEN, n_target_element = screen_id,
     n_return_list = parent_list, n_saved_cursor = l_cursor ps, n_saved_top = l_top_index ps,
     n_saved_focus = focused_element st, n_saved_active_screen = active_screen st\<rparr>"
  define st3 where "st3 = nav_update_active_local_screen
     (st\<lparr>runtime := rt1, nav_stack := (nav_stack st)[unat (nav_depth st) := entry],
         nav_depth := nav_depth st + 1\<rparr>)"
  define st4 where "st4 = protocol_focus_first_under st3 screen_id"
  define st5 where "st5 = (if focused_element st4 = INVALID_ELEMENT_ID
                           then protocol_set_focus st4 parent_list else st4)"
  have loc: "screen_id < element_count st"
    "el_type (elements st ! unat screen_id) = ELEMENT_SCREEN"
    "parent_id (elements st ! unat screen_id) \<noteq> INVALID_ELEMENT_ID"
    using assms(2) by (auto simp: screen_is_local_def Let_def split: if_splits)
  have push: "nav_push_local_screen st parent_list screen_id = (1, st5)"
    using depth g ps loc
    by (simp add: nav_push_local_screen_def Let_def
          find_screen_ordinal_by_id_def st5_def st4_def st3_def entry_def)
  have v54: "same_view st5 st4"
    by (simp add: st5_def same_view_set_focus same_view_refl)
  have v43: "same_view st4 st3"
    by (simp add: st4_def same_view_focus_first_under)
  have v53: "same_view st5 st3"
    using same_view_trans [OF v54 v43] .
  have as: "active_screen st5 = active_screen st"
    by (simp add: st5_def st4_def st3_def set_focus_frame focus_first_under_frame
          update_local_frame)
  have nd: "nav_depth st5 = nav_depth st + 1"
    by (simp add: st5_def st4_def st3_def set_focus_frame focus_first_under_frame
          update_local_frame)
  have fo: "first_visible_focusable_under st5 screen_id \<noteq> None
            \<longrightarrow> first_visible_focusable_under st5 screen_id = Some (focused_element st5)"
  proof
    assume "first_visible_focusable_under st5 screen_id \<noteq> None"
    then obtain i where i: "first_visible_focusable_under st3 screen_id = Some i"
      using same_view_first_under [OF v53, of screen_id] by auto
    then have f4: "focused_element st4 = i"
      by (simp add: st4_def focus_first_under_focus)
    moreover have "i \<noteq> INVALID_ELEMENT_ID"
      using first_under_props(3) [OF i] .
    ultimately have "focused_element st5 = i"
      by (simp add: st5_def)
    then show "first_visible_focusable_under st5 screen_id = Some (focused_element st5)"
      using same_view_first_under [OF v53, of screen_id] i by simp
  qed
  show ?thesis
    using push as nd fo local_screen_ordinal [OF assms(2)] by simp
qed

lemma nav_example_facts:
  "fst (nav_push_local_screen nav_focused 1 3) = 1"
  "screen_is_local nav_focused 3"
  "first_visible_focusable_under (snd (nav_push_local_screen nav_focused 1 3)) 3 = Some 4"
  "active_screen nav_focused = 0"
  "nav_depth nav_focused = 0"
  by code_simp+

theorem push_local_screen_focus_witness:
  "fst (nav_push_local_screen nav_focused 1 3) = 1
   \<and> screen_is_local nav_focused 3
   \<and> find_screen_ordinal_by_id nav_focused 3 = 0xFF
   \<and> active_screen (snd (nav_push_local_screen nav_focused 1 3)) = 0
   \<and> nav_depth (snd (nav_push_local_screen nav_focused 1 3)) = 1
   \<and> first_visible_focusable_under (snd (nav_push_local_screen nav_focused 1 3)) 3 = Some 4
   \<and> focused_element (snd (nav_push_local_screen nav_focused 1 3)) = 4"
  using push_local_screen_focus [of nav_focused 1 3]
  by (simp add: nav_example_facts)

end
